theory Spec2Isabelle
  imports Main "HOL-Library.Log_Nat"
begin

section \<open>JavaScript numbers\<close>

text \<open>
  Every quantity, price, leverage and percentage of the trading code is a JavaScript
  \<^verbatim>\<open>number\<close>, an IEEE-754 binary64 value. A finite value is kept as the
  rational it denotes; \<open>binary64\<close> rounds an exact result to the nearest
  representable value (53 significant bits, ties to even, gradual underflow below
  \<open>2 powi (-1022)\<close>, overflow to an infinity once the rounded value reaches \<open>2 ^ 1024\<close>). The sign of a zero
  is not kept: \<open>Fin 0\<close> stands for both zeros, so a division by zero takes the sign of
  its numerator alone (\<^verbatim>\<open>5 / -0\<close>, which is \<^verbatim>\<open>-Infinity\<close>, is \<open>PInf\<close> here); no
  statement below divides by a zero.
\<close>

datatype number = Fin rat | PInf | NInf | NaN

definition ilog2 :: "rat \<Rightarrow> int" where
  \<comment> \<open>the binary exponent \<open>\<lfloor>log\<^sub>2 r\<rfloor>\<close> of a positive rational\<close>
  "ilog2 r = (let (p, q) = quotient_of r; k = bitlen p - bitlen q
              in if 2 powi k \<le> r then k else k - 1)"

definition rne :: "rat \<Rightarrow> int" where
  \<comment> \<open>round to the nearest integer, a tie to the even one\<close>
  "rne x = (let f = \<lfloor>x\<rfloor>; d = x - of_int f
            in if d < 1/2 then f else if 1/2 < d then f + 1
               else if even f then f else f + 1)"

definition fl_pos :: "rat \<Rightarrow> rat" where
  "fl_pos r = (let e = max (ilog2 r - 52) (- 1074) in of_int (rne (r / 2 powi e)) * 2 powi e)"

definition binary64 :: "rat \<Rightarrow> number" where
  "binary64 r =
     (if r = 0 then Fin 0
      else let a = fl_pos \<bar>r\<bar>
           in if 1024 \<le> ilog2 a then (if 0 < r then PInf else NInf) else Fin (sgn r * a))"

definition lit :: "rat \<Rightarrow> number" where
  \<comment> \<open>a decimal literal of the source text, such as \<^verbatim>\<open>0.6\<close>\<close>
  "lit r = binary64 r"

definition is_double :: "number \<Rightarrow> bool" where
  "is_double x = (case x of Fin r \<Rightarrow> binary64 r = Fin r | _ \<Rightarrow> True)"

definition inf_of :: "rat \<Rightarrow> number" where
  "inf_of s = (if s = 0 then NaN else if 0 < s then PInf else NInf)"

fun nsign :: "number \<Rightarrow> rat" where
  "nsign (Fin a) = sgn a"
| "nsign PInf = 1"
| "nsign NInf = - 1"
| "nsign NaN = 0"

fun nmul :: "number \<Rightarrow> number \<Rightarrow> number" where
  "nmul NaN y = NaN"
| "nmul x NaN = NaN"
| "nmul (Fin a) (Fin b) = binary64 (a * b)"
| "nmul x y = inf_of (nsign x * nsign y)"

fun ndiv :: "number \<Rightarrow> number \<Rightarrow> number" where
  "ndiv NaN y = NaN"
| "ndiv x NaN = NaN"
| "ndiv (Fin a) (Fin b) = (if b = 0 then inf_of (sgn a) else binary64 (a / b))"
| "ndiv (Fin a) y = Fin 0"
| "ndiv x (Fin b) = inf_of (nsign x * (if b < 0 then - 1 else 1))"
| "ndiv x y = NaN"

fun nadd :: "number \<Rightarrow> number \<Rightarrow> number" where
  "nadd NaN y = NaN"
| "nadd x NaN = NaN"
| "nadd (Fin a) (Fin b) = binary64 (a + b)"
| "nadd (Fin a) y = y"
| "nadd x (Fin b) = x"
| "nadd x y = (if x = y then x else NaN)"

fun nneg :: "number \<Rightarrow> number" where
  "nneg (Fin a) = Fin (- a)"
| "nneg PInf = NInf"
| "nneg NInf = PInf"
| "nneg NaN = NaN"

definition nsub :: "number \<Rightarrow> number \<Rightarrow> number" where
  "nsub x y = nadd x (nneg y)"

fun nabs :: "number \<Rightarrow> number" where
  "nabs (Fin a) = Fin \<bar>a\<bar>"
| "nabs NaN = NaN"
| "nabs x = PInf"

fun nfloor :: "number \<Rightarrow> number" where
  "nfloor (Fin a) = Fin (of_int \<lfloor>a\<rfloor>)"
| "nfloor x = x"

fun nceil :: "number \<Rightarrow> number" where
  "nceil (Fin a) = Fin (of_int \<lceil>a\<rceil>)"
| "nceil x = x"

text \<open>Comparisons: every comparison with \<open>NaN\<close> is false, also \<^verbatim>\<open>NaN === NaN\<close>.\<close>

fun nlt :: "number \<Rightarrow> number \<Rightarrow> bool" where
  "nlt NaN y = False"
| "nlt x NaN = False"
| "nlt (Fin a) (Fin b) = (a < b)"
| "nlt x PInf = (x \<noteq> PInf)"
| "nlt NInf y = (y \<noteq> NInf)"
| "nlt x y = False"

definition nseq :: "number \<Rightarrow> number \<Rightarrow> bool" where
  "nseq x y = (x \<noteq> NaN \<and> x = y)"

definition nle :: "number \<Rightarrow> number \<Rightarrow> bool" where
  "nle x y = (nlt x y \<or> nseq x y)"

definition ngt :: "number \<Rightarrow> number \<Rightarrow> bool" where
  "ngt x y = nlt y x"

definition nge :: "number \<Rightarrow> number \<Rightarrow> bool" where
  "nge x y = nle y x"

definition nmin :: "number \<Rightarrow> number \<Rightarrow> number" where
  \<comment> \<open>\<^verbatim>\<open>Math.min\<close>\<close>
  "nmin x y = (if x = NaN \<or> y = NaN then NaN else if nlt y x then y else x)"

definition nmax :: "number \<Rightarrow> number \<Rightarrow> number" where
  \<comment> \<open>\<^verbatim>\<open>Math.max\<close>\<close>
  "nmax x y = (if x = NaN \<or> y = NaN then NaN else if nlt x y then y else x)"

definition truthy :: "number \<Rightarrow> bool" where
  \<comment> \<open>a number in a condition: zero and \<open>NaN\<close> are falsy\<close>
  "truthy x = (x \<noteq> NaN \<and> x \<noteq> Fin 0)"

definition pow10 :: "int \<Rightarrow> number" where
  \<comment> \<open>\<^verbatim>\<open>Math.pow(10, k)\<close> for an integer \<open>k\<close>, taken as correctly rounded\<close>
  "pow10 k = binary64 (10 powi k)"


section \<open>Precision policy (\<^verbatim>\<open>lib/trading/biance.ts\<close>, \<^verbatim>\<open>lib/trading/sell.ts\<close>)\<close>

record symbol_precision =
  sp_quantity :: int
  sp_price :: int
  sp_minNotional :: number

text \<open>
  Both modules carry their own \<^verbatim>\<open>SYMBOL_PRECISION\<close> table; they differ in the
  quantity decimals of \<^verbatim>\<open>SOLUSDT\<close>. The tables are object literals, so
  \<^verbatim>\<open>SYMBOL_PRECISION[symbol]\<close> also finds the properties that every object inherits
  from \<^verbatim>\<open>Object.prototype\<close>: for such a key the value is an object or a function,
  which is truthy and has neither \<^verbatim>\<open>quantity\<close> nor \<^verbatim>\<open>minNotional\<close>.
\<close>

definition inherited :: "string \<Rightarrow> bool" where
  \<comment> \<open>the property names of \<^verbatim>\<open>Object.prototype\<close>\<close>
  "inherited key \<longleftrightarrow>
     key \<in> set [''constructor'', ''__defineGetter__'', ''__defineSetter__'', ''hasOwnProperty'',
                 ''__lookupGetter__'', ''__lookupSetter__'', ''isPrototypeOf'',
                 ''propertyIsEnumerable'', ''toString'', ''valueOf'', ''__proto__'',
                 ''toLocaleString'']"

definition SYMBOL_PRECISION_buy :: "string \<Rightarrow> symbol_precision option" where
  "SYMBOL_PRECISION_buy = map_of
     [(''BTCUSDT'', \<lparr>sp_quantity = 3, sp_price = 1, sp_minNotional = Fin 5\<rparr>),
      (''ETHUSDT'', \<lparr>sp_quantity = 2, sp_price = 2, sp_minNotional = Fin 5\<rparr>),
      (''BNBUSDT'', \<lparr>sp_quantity = 1, sp_price = 2, sp_minNotional = Fin 5\<rparr>),
      (''SOLUSDT'', \<lparr>sp_quantity = 0, sp_price = 3, sp_minNotional = Fin 5\<rparr>),
      (''ADAUSDT'', \<lparr>sp_quantity = 0, sp_price = 4, sp_minNotional = Fin 5\<rparr>),
      (''DOGEUSDT'', \<lparr>sp_quantity = 0, sp_price = 5, sp_minNotional = Fin 5\<rparr>)]"

definition SYMBOL_PRECISION_sell :: "string \<Rightarrow> symbol_precision option" where
  "SYMBOL_PRECISION_sell = map_of
     [(''BTCUSDT'', \<lparr>sp_quantity = 3, sp_price = 1, sp_minNotional = Fin 5\<rparr>),
      (''ETHUSDT'', \<lparr>sp_quantity = 2, sp_price = 2, sp_minNotional = Fin 5\<rparr>),
      (''BNBUSDT'', \<lparr>sp_quantity = 1, sp_price = 2, sp_minNotional = Fin 5\<rparr>),
      (''SOLUSDT'', \<lparr>sp_quantity = 1, sp_price = 3, sp_minNotional = Fin 5\<rparr>),
      (''ADAUSDT'', \<lparr>sp_quantity = 0, sp_price = 4, sp_minNotional = Fin 5\<rparr>),
      (''DOGEUSDT'', \<lparr>sp_quantity = 0, sp_price = 5, sp_minNotional = Fin 5\<rparr>)]"

definition DEFAULT_PRECISION :: symbol_precision where
  "DEFAULT_PRECISION = \<lparr>sp_quantity = 3, sp_price = 2, sp_minNotional = Fin 5\<rparr>"

definition adjustPrecision ::
  "(string \<Rightarrow> symbol_precision option) \<Rightarrow> number \<Rightarrow> string \<Rightarrow> number" where
  \<comment> \<open>the same body in both modules; the first argument is the module's table\<close>
  "adjustPrecision SYMBOL_PRECISION amount symbol =
     (let factor =
            (case SYMBOL_PRECISION symbol of
               Some config \<Rightarrow> pow10 (sp_quantity config)
             | None \<Rightarrow>
                 if inherited symbol then NaN \<comment> \<open>\<^verbatim>\<open>Math.pow(10, undefined)\<close>\<close>
                 else pow10 (sp_quantity DEFAULT_PRECISION));
          adjusted = ndiv (nfloor (nmul amount factor)) factor
      in adjusted)"


section \<open>Risk checks (\<^verbatim>\<open>checkDailyLossLimit\<close>)\<close>

record RiskConfig =
  tradingMode :: string
  maxPositionSizeUSDT :: number
  maxLeverage :: number
  dailyLossLimitPercent :: number

datatype risk_reason =
  DailyLossLimitReached number number
  \<comment> \<open>\<^verbatim>\<open>Daily loss limit reached: -<lossPercent>% (limit: <limit>%)\<close>\<close>

record RiskCheckResult =
  allowed :: bool
  reason :: "risk_reason option"

definition lossPercent :: "number \<Rightarrow> number \<Rightarrow> number" where
  \<comment> \<open>\<^verbatim>\<open>(Math.abs(todayPnL) / initialCapital) * 100\<close>\<close>
  "lossPercent todayPnL initialCapital = nmul (ndiv (nabs todayPnL) initialCapital) (Fin 100)"

definition checkDailyLossLimit :: "number \<Rightarrow> number \<Rightarrow> RiskConfig \<Rightarrow> RiskCheckResult" where
  "checkDailyLossLimit todayPnL initialCapital config =
     (if nlt todayPnL (Fin 0) \<and> nge (lossPercent todayPnL initialCapital) (dailyLossLimitPercent config)
      then \<lparr>allowed = False,
            reason = Some (DailyLossLimitReached (lossPercent todayPnL initialCapital)
                                                 (dailyLossLimitPercent config))\<rparr>
      else \<lparr>allowed = True, reason = None\<rparr>)"


section \<open>Risk multipliers (\<^verbatim>\<open>lib/ai/learning-feedback.ts\<close>)\<close>

record LearningStats =
  total_trades :: number
  winning_trades :: number
  losing_trades :: number
  win_rate :: number
  avg_profit :: number
  avg_loss :: number
  total_pnl :: number

datatype recommendation = RiskReduced | RiskIncreased | NormalRisk

record RiskAdjustment =
  leverage_multiplier :: number
  position_size_multiplier :: number
  confidence_threshold :: number
  recommendation :: recommendation

definition getDynamicRiskAdjustment :: "LearningStats \<Rightarrow> RiskAdjustment" where
  "getDynamicRiskAdjustment stats =
     (let (leverageMultiplier, positionSizeMultiplier, confidenceThreshold) =
            (if nlt (win_rate stats) (Fin 40) then (lit (5/10), lit (5/10), lit (75/100))
             else if nlt (win_rate stats) (Fin 50) then (lit (7/10), lit (7/10), lit (7/10))
             else if ngt (win_rate stats) (Fin 65) then (lit (12/10), lit (11/10), lit (55/100))
             else (lit 1, lit 1, lit (6/10)));
          (leverageMultiplier, positionSizeMultiplier, confidenceThreshold) =
            (if nlt (total_pnl stats) (Fin (- 10))
             then (nmul leverageMultiplier (lit (6/10)),
                   nmul positionSizeMultiplier (lit (6/10)),
                   nmax confidenceThreshold (lit (75/100)))
             else (leverageMultiplier, positionSizeMultiplier, confidenceThreshold))
      in \<lparr>leverage_multiplier = leverageMultiplier,
          position_size_multiplier = positionSizeMultiplier,
          confidence_threshold = confidenceThreshold,
          recommendation =
            (if nlt leverageMultiplier (lit (8/10)) then RiskReduced
             else if ngt leverageMultiplier (lit (11/10)) then RiskIncreased
             else NormalRisk)\<rparr>)"

definition triple :: "RiskAdjustment \<Rightarrow> number \<times> number \<times> number" where
  \<comment> \<open>the three numbers of a result: leverage multiplier, size multiplier, confidence threshold\<close>
  "triple r = (leverage_multiplier r, position_size_multiplier r, confidence_threshold r)"


section \<open>The exchange and the process state\<close>

text \<open>
  The trading functions are \<^verbatim>\<open>async\<close> functions that talk to the exchange through the
  SDK client and through \<^verbatim>\<open>fetch\<close>. Every call they make and every delay they wait
  is appended to a trace; the answer to a call is given by an \<open>exchange\<close>, a record of
  functions of the trace so far, so that an answer may depend on everything that
  happened before it. A rejected promise (a thrown error) is a \<open>js_error\<close>.
\<close>

record js_error =
  err_message :: string \<comment> \<open>\<^verbatim>\<open>error.message\<close>, empty when there is none\<close>
  err_response_msg :: "string option" \<comment> \<open>\<^verbatim>\<open>error.response.data.msg\<close>, the exchange's own message\<close>

record order_params =
  op_quantity :: "number option" \<comment> \<open>sent as \<^verbatim>\<open>quantity.toString()\<close>\<close>
  op_price :: "number option"
  op_timeInForce :: "string option"
  op_positionSide :: "string option"
  op_reduceOnly :: bool
  op_stopPrice :: "number option" \<comment> \<open>sent as \<^verbatim>\<open>stopPrice.toFixed(2)\<close>\<close>
  op_closePosition :: bool

record order_data =
  \<comment> \<open>\<^verbatim>\<open>response.data\<close> of \<^verbatim>\<open>newOrder\<close>; a numeric field is \<open>Some\<close> of what
     \<^verbatim>\<open>parseFloat\<close> reads from its text when the text is there and not empty\<close>
  od_orderId :: "string option"
  od_avgPrice :: "number option"
  od_price :: "number option"
  od_executedQty :: "number option"
  od_origQty :: "number option"

record Position =
  pos_symbol :: string
  pos_side :: string
  pos_contracts :: number
  pos_entryPrice :: number
  pos_markPrice :: number
  pos_unrealizedPnl :: number

record open_order =
  oo_orderId :: string
  oo_type :: string
  oo_positionSide :: string

datatype event =
    GetBinanceInstance
  | SyncServerTime
  | MarkPrice string
  | ChangeInitialLeverage string number
      \<comment> \<open>its failure is caught and logged only, so its answer is not modelled\<close>
  | QueryPositionMode
  | NewOrder string string string order_params
  | FetchPositions
  | GetCurrentMarketState string
  | OpenOrders string
  | CancelOrder string string
  | Sleep nat \<comment> \<open>milliseconds\<close>

record exchange =
  x_instance :: "event list \<Rightarrow> js_error option"
    \<comment> \<open>\<^verbatim>\<open>await getBinanceInstance()\<close>: \<open>None\<close> when the session is there\<close>
  x_markPrice :: "event list \<Rightarrow> string \<Rightarrow> js_error + number"
    \<comment> \<open>\<^verbatim>\<open>parseFloat(ticker.markPrice)\<close>\<close>
  x_positionMode :: "event list \<Rightarrow> bool option"
    \<comment> \<open>\<^verbatim>\<open>dualSidePosition\<close> as the first lookup that answers gives it (SDK method, then
       the signed REST call); \<open>None\<close> when none answers\<close>
  x_newOrder ::
    "event list \<Rightarrow> string \<Rightarrow> string \<Rightarrow> string \<Rightarrow> order_params \<Rightarrow> js_error + order_data option"
  x_fetchPositions :: "event list \<Rightarrow> js_error + Position list"
  x_marketState :: "event list \<Rightarrow> string \<Rightarrow> js_error + number \<times> number"
    \<comment> \<open>\<^verbatim>\<open>current_price\<close> and \<^verbatim>\<open>longer_term.atr_14\<close> of \<^verbatim>\<open>getCurrentMarketState\<close>\<close>
  x_openOrders :: "event list \<Rightarrow> string \<Rightarrow> open_order list"
    \<comment> \<open>the open orders of a symbol; the empty list when every lookup fails\<close>
  x_cancelOrder :: "event list \<Rightarrow> string \<Rightarrow> string \<Rightarrow> bool"
    \<comment> \<open>whether the cancellation went through\<close>

datatype positionMode = ONE_WAY | DUAL_SIDE

record world =
  trace :: "event list"
  positionModeCache_buy :: "positionMode option" \<comment> \<open>the module variable of \<^verbatim>\<open>biance.ts\<close>\<close>
  positionModeCache_sltp :: "positionMode option"
    \<comment> \<open>the module variable of the stop-loss / take-profit module\<close>

definition emit :: "event \<Rightarrow> world \<Rightarrow> world" where
  "emit e w = w\<lparr>trace := trace w @ [e]\<rparr>"

definition getBinanceInstance :: "exchange \<Rightarrow> world \<Rightarrow> js_error option \<times> world" where
  "getBinanceInstance ex w = (x_instance ex (trace w), emit GetBinanceInstance w)"

definition ensureTimeSync :: "exchange \<Rightarrow> world \<Rightarrow> js_error option \<times> world" where
  \<comment> \<open>\<^verbatim>\<open>syncServerTime\<close> catches its own failures and never throws\<close>
  "ensureTimeSync ex w =
     (case getBinanceInstance ex w of
        (Some e, w1) \<Rightarrow> (Some e, w1)
      | (None, w1) \<Rightarrow> (None, emit SyncServerTime w1))"

definition includesSlash :: "string \<Rightarrow> bool" where
  \<comment> \<open>\<^verbatim>\<open>symbol.includes("/")\<close>\<close>
  "includesSlash symbol = (CHR ''/'' \<in> set symbol)"

definition toBinanceSymbol :: "string \<Rightarrow> string" where
  \<comment> \<open>\<^verbatim>\<open>symbol.replace("/", "")\<close> removes the first slash\<close>
  "toBinanceSymbol symbol = remove1 (CHR ''/'') symbol"

definition quantityOr3 :: "(string \<Rightarrow> symbol_precision option) \<Rightarrow> string \<Rightarrow> int" where
  \<comment> \<open>\<^verbatim>\<open>SYMBOL_PRECISION[symbol]?.quantity || 3\<close>: an unknown symbol, an inherited key
     (its value has no \<^verbatim>\<open>quantity\<close>) and zero decimals give 3\<close>
  "quantityOr3 SYMBOL_PRECISION symbol =
     (case SYMBOL_PRECISION symbol of
        None \<Rightarrow> 3
      | Some c \<Rightarrow> if sp_quantity c = 0 then 3 else sp_quantity c)"

function orderLoop ::
  "nat \<Rightarrow> exchange \<Rightarrow> string \<Rightarrow> string \<Rightarrow> string \<Rightarrow> order_params \<Rightarrow> nat \<Rightarrow> js_error option \<Rightarrow> world
   \<Rightarrow> (js_error + order_data option \<times> js_error option) \<times> world" where
  \<comment> \<open>the submission loop of \<^verbatim>\<open>buy\<close> (delay unit 3000 ms) and of \<^verbatim>\<open>sell\<close> (2000 ms):
     \<^verbatim>\<open>for (let attempt = 1; attempt <= 3; attempt++)\<close>. It returns the thrown error of
     the last attempt, or \<^verbatim>\<open>orderResult\<close> with \<^verbatim>\<open>lastError\<close>.\<close>
  "orderLoop unit ex symbol side orderType orderParams attempt lastError w =
     (if 3 < attempt then (Inr (None, lastError), w)
      else
        let w1 = emit (NewOrder symbol side orderType orderParams) w
        in case x_newOrder ex (trace w) symbol side orderType orderParams of
             Inr dat \<Rightarrow> (Inr (dat, lastError), w1)
           | Inl e \<Rightarrow>
               if attempt < 3
               then orderLoop unit ex symbol side orderType orderParams (attempt + 1) (Some e)
                      (emit (Sleep (attempt * unit)) w1)
               else (Inl e, w1))"
  by pat_completeness auto
termination
  by (relation "measure (\<lambda>(unit, ex, symbol, side, orderType, orderParams, attempt, lastError, w).
        3 - attempt)") auto

definition executedPrice_of :: "order_data \<Rightarrow> number" where
  \<comment> \<open>\<^verbatim>\<open>avgPrice ? parseFloat(avgPrice) : (price ? parseFloat(price) : 0)\<close>\<close>
  "executedPrice_of d =
     (case od_avgPrice d of Some x \<Rightarrow> x
      | None \<Rightarrow> (case od_price d of Some x \<Rightarrow> x | None \<Rightarrow> Fin 0))"

definition executedAmount_of :: "order_data \<Rightarrow> number" where
  "executedAmount_of d =
     (case od_executedQty d of Some x \<Rightarrow> x
      | None \<Rightarrow> (case od_origQty d of Some x \<Rightarrow> x | None \<Rightarrow> Fin 0))"

definition opt_truthy :: "number option \<Rightarrow> bool" where
  \<comment> \<open>an optional number in a condition: \<^verbatim>\<open>undefined\<close>, zero and \<open>NaN\<close> are falsy\<close>
  "opt_truthy x = (case x of Some n \<Rightarrow> truthy n | None \<Rightarrow> False)"

definition new_events :: "world \<Rightarrow> world \<Rightarrow> event list" where
  \<comment> \<open>what a run from \<open>w\<close> to \<open>w'\<close> added to the trace\<close>
  "new_events w w' = drop (length (trace w)) (trace w')"


section \<open>Stop-loss and take-profit orders (\<^verbatim>\<open>setStopLossTakeProfit\<close>)\<close>

record StopLossTakeProfitParams =
  tp_symbol :: string
  tp_stopLoss :: "number option"
  tp_takeProfit :: "number option"
  tp_stopLossPercent :: "number option"
  tp_takeProfitPercent :: "number option"
  tp_trailingStopPercent :: "number option"

datatype sltp_error =
    SltpInvalidSymbolFormat
  | SltpNoOpenPosition string
  | StopLossNotBelowEntry number number
      \<comment> \<open>\<^verbatim>\<open>Stop loss price (..) must be below entry price (..) for long position\<close>\<close>
  | StopLossNotAboveEntry number number
  | TakeProfitNotAboveEntry number number
      \<comment> \<open>\<^verbatim>\<open>Take profit price (..) must be above entry price (..) for long position\<close>\<close>
  | TakeProfitNotBelowEntry number number
  | FailedToCreateStopLoss string
  | FailedToCreateTakeProfit string
  | SltpThrown string

record StopLossTakeProfitResult =
  st_success :: bool
  st_stopLossOrderId :: "string option"
  st_takeProfitOrderId :: "string option"
  st_error :: "sltp_error option"

definition sltp_fail :: "sltp_error \<Rightarrow> StopLossTakeProfitResult" where
  "sltp_fail e = \<lparr>st_success = False, st_stopLossOrderId = None, st_takeProfitOrderId = None,
                  st_error = Some e\<rparr>"

definition getPositionMode_sltp :: "exchange \<Rightarrow> world \<Rightarrow> positionMode \<times> world" where
  "getPositionMode_sltp ex w =
     (case positionModeCache_sltp w of
        Some m \<Rightarrow> (m, w)
      | None \<Rightarrow>
          (case getBinanceInstance ex w of
             (Some e, w1) \<Rightarrow> (ONE_WAY, w1\<lparr>positionModeCache_sltp := Some ONE_WAY\<rparr>)
           | (None, w1) \<Rightarrow>
               let m = (case x_positionMode ex (trace w1) of
                          Some True \<Rightarrow> DUAL_SIDE | _ \<Rightarrow> ONE_WAY)
               in (m, (emit QueryPositionMode w1)\<lparr>positionModeCache_sltp := Some m\<rparr>)))"

fun cancelEach :: "exchange \<Rightarrow> string \<Rightarrow> open_order list \<Rightarrow> nat \<Rightarrow> world \<Rightarrow> nat \<times> world" where
  \<comment> \<open>\<^verbatim>\<open>for (const order of slTpOrders)\<close>: a failed cancellation is logged and skipped\<close>
  "cancelEach ex binanceSymbol [] canceledCount w = (canceledCount, w)"
| "cancelEach ex binanceSymbol (order # orders) canceledCount w =
     cancelEach ex binanceSymbol orders
       (if x_cancelOrder ex (trace w) binanceSymbol (oo_orderId order)
        then canceledCount + 1 else canceledCount)
       (emit (CancelOrder binanceSymbol (oo_orderId order)) w)"

definition cancelStopLossTakeProfitForPosition ::
  "exchange \<Rightarrow> string \<Rightarrow> string \<Rightarrow> world \<Rightarrow> (bool \<times> nat \<times> string option) \<times> world" where
  \<comment> \<open>the result is \<^verbatim>\<open>{ success, canceledCount, error }\<close>\<close>
  "cancelStopLossTakeProfitForPosition ex binanceSymbol positionSide w =
     (case getBinanceInstance ex w of
        (Some e, w1) \<Rightarrow> ((False, 0, Some (err_message e)), w1)
      | (None, w1) \<Rightarrow>
          (case getPositionMode_sltp ex w1 of (positionMode, w2) \<Rightarrow>
             let openOrders = x_openOrders ex (trace w2) binanceSymbol;
                 w3 = emit (OpenOrders binanceSymbol) w2;
                 slTpOrders =
                   (if positionMode = DUAL_SIDE
                    then filter (\<lambda>order. (oo_type order = ''STOP_MARKET''
                                            \<or> oo_type order = ''TAKE_PROFIT_MARKET'')
                                           \<and> oo_positionSide order = positionSide) openOrders
                    else filter (\<lambda>order. oo_type order = ''STOP_MARKET''
                                           \<or> oo_type order = ''TAKE_PROFIT_MARKET'') openOrders)
             in if slTpOrders = [] then ((True, 0, None), w3)
                else (case cancelEach ex binanceSymbol slTpOrders 0 w3 of
                        (canceledCount, w4) \<Rightarrow> ((True, canceledCount, None), w4))))"

definition sltp_derivePrices ::
  "exchange \<Rightarrow> StopLossTakeProfitParams \<Rightarrow> bool \<Rightarrow> number \<Rightarrow> world
   \<Rightarrow> (number option \<times> number option) \<times> world" where
  \<comment> \<open>\<^verbatim>\<open>finalStopLoss\<close> and \<^verbatim>\<open>finalTakeProfit\<close>: the given prices, or the prices at the
     given percentages of the entry price, or at percentages derived from the 14-period
     average true range when nothing is given\<close>
  "sltp_derivePrices ex p isLong entryPrice w =
     (let nothing = (\<not> opt_truthy (tp_stopLoss p) \<and> \<not> opt_truthy (tp_takeProfit p)
                     \<and> \<not> opt_truthy (tp_stopLossPercent p) \<and> \<not> opt_truthy (tp_takeProfitPercent p));
          (effectiveSLPercent, effectiveTPPercent) =
            (if nothing
             then (case x_marketState ex (trace w) (tp_symbol p) of
                     Inl e \<Rightarrow> (Some (lit 3), Some (lit 10))
                   | Inr (current_price, atr_14) \<Rightarrow>
                       let refPrice = (if truthy current_price then current_price else entryPrice);
                           atr14 = (if truthy atr_14 then atr_14 else Fin 0);
                           volPct = (if ngt refPrice (Fin 0) \<and> ngt atr14 (Fin 0)
                                     then nmul (ndiv atr14 refPrice) (Fin 100) else lit (25/10));
                           sl = nmul volPct (lit (15/10))
                       in (Some sl, Some (nmul sl (lit 3))))
             else (tp_stopLossPercent p, tp_takeProfitPercent p));
          w1 = (if nothing then emit (GetCurrentMarketState (tp_symbol p)) w else w);
          finalStopLoss =
            (if opt_truthy effectiveSLPercent \<and> \<not> opt_truthy (tp_stopLoss p)
             then Some (if isLong
                        then nmul entryPrice (nsub (Fin 1) (ndiv (the effectiveSLPercent) (Fin 100)))
                        else nmul entryPrice (nadd (Fin 1) (ndiv (the effectiveSLPercent) (Fin 100))))
             else tp_stopLoss p);
          finalTakeProfit =
            (if opt_truthy effectiveTPPercent \<and> \<not> opt_truthy (tp_takeProfit p)
             then Some (if isLong
                        then nmul entryPrice (nadd (Fin 1) (ndiv (the effectiveTPPercent) (Fin 100)))
                        else nmul entryPrice (nsub (Fin 1) (ndiv (the effectiveTPPercent) (Fin 100))))
             else tp_takeProfit p)
      in ((finalStopLoss, finalTakeProfit), w1))"

definition sltp_cleanup :: "exchange \<Rightarrow> string \<Rightarrow> bool \<Rightarrow> world \<Rightarrow> world" where
  \<comment> \<open>cancel the old protective orders, then wait 5 s when some were cancelled, 1 s otherwise\<close>
  "sltp_cleanup ex binanceSymbol isLong w =
     (case cancelStopLossTakeProfitForPosition ex binanceSymbol (if isLong then ''LONG'' else ''SHORT'') w of
        ((success, canceledCount, err), w1) \<Rightarrow>
          if 0 < canceledCount then emit (Sleep 5000) w1 else emit (Sleep 1000) w1)"

definition protectiveParams :: "positionMode \<Rightarrow> bool \<Rightarrow> number \<Rightarrow> order_params" where
  \<comment> \<open>\<^verbatim>\<open>{ stopPrice, closePosition: "true" }\<close>, with \<^verbatim>\<open>positionSide\<close> under dual-side mode\<close>
  "protectiveParams positionMode isLong stopPrice =
     \<lparr>op_quantity = None, op_price = None, op_timeInForce = None,
      op_positionSide = (if positionMode = DUAL_SIDE
                         then Some (if isLong then ''LONG'' else ''SHORT'') else None),
      op_reduceOnly = False,
      op_stopPrice = Some stopPrice,
      op_closePosition = True\<rparr>"

definition creationMessage :: "js_error \<Rightarrow> string" where
  \<comment> \<open>\<^verbatim>\<open>error?.response?.data?.msg || error.message\<close>\<close>
  "creationMessage e =
     (case err_response_msg e of
        Some m \<Rightarrow> if m \<noteq> [] then m else err_message e
      | None \<Rightarrow> err_message e)"

definition createStopLoss ::
  "exchange \<Rightarrow> string \<Rightarrow> bool \<Rightarrow> number \<Rightarrow> positionMode \<Rightarrow> number option \<Rightarrow> world
   \<Rightarrow> (StopLossTakeProfitResult + string option) \<times> world" where
  \<comment> \<open>the block \<^verbatim>\<open>if (finalStopLoss) { .. }\<close>: \<open>Inl\<close> is the early \<^verbatim>\<open>return\<close>, \<open>Inr\<close> the
     value of \<^verbatim>\<open>stopLossOrderId\<close> after the block\<close>
  "createStopLoss ex binanceSymbol isLong entryPrice positionMode finalStopLoss w =
     (if \<not> opt_truthy finalStopLoss then (Inr None, w)
      else
        let stopLoss = the finalStopLoss
        in if isLong \<and> nge stopLoss entryPrice
           then (Inl (sltp_fail (StopLossNotBelowEntry stopLoss entryPrice)), w)
           else if \<not> isLong \<and> nle stopLoss entryPrice
           then (Inl (sltp_fail (StopLossNotAboveEntry stopLoss entryPrice)), w)
           else
             let stopLossParams = protectiveParams positionMode isLong stopLoss;
                 side = (if isLong then ''SELL'' else ''BUY'');
                 w1 = emit (NewOrder binanceSymbol side ''STOP_MARKET'' stopLossParams) w
             in case x_newOrder ex (trace w) binanceSymbol side ''STOP_MARKET'' stopLossParams of
                  Inr (Some dat) \<Rightarrow> (Inr (od_orderId dat), w1)
                | Inr None \<Rightarrow>
                    (Inl (sltp_fail (FailedToCreateStopLoss
                       ''Cannot read properties of undefined (reading 'orderId')'')), w1)
                | Inl e \<Rightarrow> (Inl (sltp_fail (FailedToCreateStopLoss (creationMessage e))), w1))"

definition createTakeProfit ::
  "exchange \<Rightarrow> string \<Rightarrow> bool \<Rightarrow> number \<Rightarrow> positionMode \<Rightarrow> number option \<Rightarrow> world
   \<Rightarrow> (StopLossTakeProfitResult + string option) \<times> world" where
  \<comment> \<open>the block \<^verbatim>\<open>if (finalTakeProfit) { .. }\<close>\<close>
  "createTakeProfit ex binanceSymbol isLong entryPrice positionMode finalTakeProfit w =
     (if \<not> opt_truthy finalTakeProfit then (Inr None, w)
      else
        let takeProfit = the finalTakeProfit
        in if isLong \<and> nle takeProfit entryPrice
           then (Inl (sltp_fail (TakeProfitNotAboveEntry takeProfit entryPrice)), w)
           else if \<not> isLong \<and> nge takeProfit entryPrice
           then (Inl (sltp_fail (TakeProfitNotBelowEntry takeProfit entryPrice)), w)
           else
             let takeProfitParams = protectiveParams positionMode isLong takeProfit;
                 side = (if isLong then ''SELL'' else ''BUY'');
                 w1 = emit (NewOrder binanceSymbol side ''TAKE_PROFIT_MARKET'' takeProfitParams) w
             in case x_newOrder ex (trace w) binanceSymbol side ''TAKE_PROFIT_MARKET'' takeProfitParams of
                  Inr (Some dat) \<Rightarrow> (Inr (od_orderId dat), w1)
                | Inr None \<Rightarrow>
                    (Inl (sltp_fail (FailedToCreateTakeProfit
                       ''Cannot read properties of undefined (reading 'orderId')'')), w1)
                | Inl e \<Rightarrow> (Inl (sltp_fail (FailedToCreateTakeProfit (creationMessage e))), w1))"

definition sltp_legs ::
  "exchange \<Rightarrow> string \<Rightarrow> bool \<Rightarrow> number \<Rightarrow> positionMode \<Rightarrow> number option \<Rightarrow> number option \<Rightarrow> world
   \<Rightarrow> StopLossTakeProfitResult \<times> world" where
  \<comment> \<open>the stop-loss block, then the take-profit block, then \<^verbatim>\<open>return { success: true, .. }\<close>\<close>
  "sltp_legs ex binanceSymbol isLong entryPrice positionMode finalStopLoss finalTakeProfit w =
     (case createStopLoss ex binanceSymbol isLong entryPrice positionMode finalStopLoss w of
        (Inl r, w1) \<Rightarrow> (r, w1)
      | (Inr stopLossOrderId, w1) \<Rightarrow>
          (case createTakeProfit ex binanceSymbol isLong entryPrice positionMode finalTakeProfit w1 of
             (Inl r, w2) \<Rightarrow> (r, w2)
           | (Inr takeProfitOrderId, w2) \<Rightarrow>
               (\<lparr>st_success = True, st_stopLossOrderId = stopLossOrderId,
                 st_takeProfitOrderId = takeProfitOrderId, st_error = None\<rparr>, w2)))"

definition sltp_prepare ::
  "exchange \<Rightarrow> StopLossTakeProfitParams \<Rightarrow> Position \<Rightarrow> world
   \<Rightarrow> (positionMode \<times> number option \<times> number option) \<times> world" where
  \<comment> \<open>from the position found to the point where the orders are created: prices, cleanup
     of old protective orders, position mode\<close>
  "sltp_prepare ex p position w =
     (let isLong = (pos_side position = ''long'');
          entryPrice = pos_entryPrice position
      in case sltp_derivePrices ex p isLong entryPrice w of
           ((finalStopLoss, finalTakeProfit), w1) \<Rightarrow>
             let w2 = sltp_cleanup ex (toBinanceSymbol (tp_symbol p)) isLong w1
             in case getPositionMode_sltp ex w2 of
                  (positionMode, w3) \<Rightarrow> ((positionMode, finalStopLoss, finalTakeProfit), w3))"

definition sltp_position ::
  "exchange \<Rightarrow> StopLossTakeProfitParams \<Rightarrow> world
   \<Rightarrow> (js_error + StopLossTakeProfitResult + Position) \<times> world" where
  \<comment> \<open>session, positions, and the position of the symbol: a thrown error, the early
     \<^verbatim>\<open>return\<close> for no open position, or the position\<close>
  "sltp_position ex p w =
     (case getBinanceInstance ex w of
        (Some e, w1) \<Rightarrow> (Inl e, w1)
      | (None, w1) \<Rightarrow>
          (case x_fetchPositions ex (trace w1) of
             Inl e \<Rightarrow> (Inl e, emit FetchPositions w1)
           | Inr positions \<Rightarrow>
               (case find (\<lambda>q. pos_symbol q = toBinanceSymbol (tp_symbol p)) positions of
                  None \<Rightarrow> (Inr (Inl (sltp_fail (SltpNoOpenPosition (tp_symbol p)))),
                            emit FetchPositions w1)
                | Some position \<Rightarrow>
                    if nseq (pos_contracts position) (Fin 0)
                    then (Inr (Inl (sltp_fail (SltpNoOpenPosition (tp_symbol p)))),
                          emit FetchPositions w1)
                    else (Inr (Inr position), emit FetchPositions w1))))"

definition setStopLossTakeProfit ::
  "exchange \<Rightarrow> StopLossTakeProfitParams \<Rightarrow> world \<Rightarrow> StopLossTakeProfitResult \<times> world" where
  "setStopLossTakeProfit ex p w =
     (if tp_symbol p = [] \<or> \<not> includesSlash (tp_symbol p)
      then (sltp_fail SltpInvalidSymbolFormat, w)
      else
        case sltp_position ex p w of
          (Inl e, w1) \<Rightarrow>
            (sltp_fail (SltpThrown (if err_message e \<noteq> [] then err_message e
                                    else ''Unknown error occurred'')), w1)
        | (Inr (Inl r), w1) \<Rightarrow> (r, w1)
        | (Inr (Inr position), w1) \<Rightarrow>
            (case sltp_prepare ex p position w1 of
               ((positionMode, finalStopLoss, finalTakeProfit), w2) \<Rightarrow>
                 sltp_legs ex (toBinanceSymbol (tp_symbol p)) (pos_side position = ''long'')
                   (pos_entryPrice position) positionMode finalStopLoss finalTakeProfit w2))"



section \<open>Entry orders (\<^verbatim>\<open>buy\<close> in \<^verbatim>\<open>lib/trading/biance.ts\<close>)\<close>

record BuyParams =
  bp_symbol :: string
  bp_amount :: number
  bp_leverage :: "number option" \<comment> \<open>default 10\<close>
  bp_price :: "number option"
  bp_autoSetStopLoss :: "bool option" \<comment> \<open>default true\<close>
  bp_stopLossPercent :: "number option"
  bp_takeProfitPercent :: "number option"

datatype buy_error =
    InvalidSymbolFormat \<comment> \<open>\<^verbatim>\<open>Invalid symbol format. Use 'BTC/USDT'\<close>\<close>
  | AmountNotPositive \<comment> \<open>\<^verbatim>\<open>Amount must be greater than 0\<close>\<close>
  | LeverageOutOfRange \<comment> \<open>\<^verbatim>\<open>Leverage must be between 1 and 30\<close>\<close>
  | AmountTooSmall number string number number
      \<comment> \<open>\<^verbatim>\<open>Amount .. too small. Minimum for .. is ... Suggested leverage ..x exceeds safe
         limit 30x - SKIP THIS TRADE.\<close> with amount, symbol, minimum, suggested leverage\<close>
  | InvalidAdjustedAmount number string number number
  | OrderValueBelowMinimum number number
  | BuyThrown string \<comment> \<open>the message of an error caught by the outer \<^verbatim>\<open>catch\<close>\<close>

record BuyResult =
  br_success :: bool
  br_orderId :: "string option"
  br_executedPrice :: "number option"
  br_executedAmount :: "number option"
  br_error :: "buy_error option"

definition buy_fail :: "buy_error \<Rightarrow> BuyResult" where
  "buy_fail e = \<lparr>br_success = False, br_orderId = None, br_executedPrice = None,
                 br_executedAmount = None, br_error = Some e\<rparr>"

definition buy_leverage :: "BuyParams \<Rightarrow> number" where
  "buy_leverage p = (case bp_leverage p of Some l \<Rightarrow> l | None \<Rightarrow> Fin 10)"

definition buy_validate :: "BuyParams \<Rightarrow> buy_error option" where
  \<comment> \<open>the three checks before the \<^verbatim>\<open>try\<close> block\<close>
  "buy_validate p =
     (if bp_symbol p = [] \<or> \<not> includesSlash (bp_symbol p) then Some InvalidSymbolFormat
      else if nle (bp_amount p) (Fin 0) then Some AmountNotPositive
      else if nlt (buy_leverage p) (Fin 1) \<or> ngt (buy_leverage p) (Fin 30)
      then Some LeverageOutOfRange
      else None)"

definition getPositionMode_buy :: "exchange \<Rightarrow> world \<Rightarrow> positionMode \<times> world" where
  "getPositionMode_buy ex w =
     (case positionModeCache_buy w of
        Some m \<Rightarrow> (m, w)
      | None \<Rightarrow>
          (case getBinanceInstance ex w of
             (Some e, w1) \<Rightarrow> (ONE_WAY, w1\<lparr>positionModeCache_buy := Some ONE_WAY\<rparr>)
           | (None, w1) \<Rightarrow>
               (case ensureTimeSync ex w1 of
                  (Some e, w2) \<Rightarrow> (ONE_WAY, w2\<lparr>positionModeCache_buy := Some ONE_WAY\<rparr>)
                | (None, w2) \<Rightarrow>
                    let m = (case x_positionMode ex (trace w2) of
                               Some True \<Rightarrow> DUAL_SIDE | _ \<Rightarrow> ONE_WAY)
                    in (m, (emit QueryPositionMode w2)\<lparr>positionModeCache_buy := Some m\<rparr>))))"

definition buy_connect :: "exchange \<Rightarrow> world \<Rightarrow> js_error option \<times> world" where
  \<comment> \<open>\<^verbatim>\<open>await ensureTimeSync(); const client = await getBinanceInstance();\<close>\<close>
  "buy_connect ex w =
     (case ensureTimeSync ex w of
        (Some e, w1) \<Rightarrow> (Some e, w1)
      | (None, w1) \<Rightarrow> getBinanceInstance ex w1)"

definition buy_currentPrice :: "exchange \<Rightarrow> BuyParams \<Rightarrow> string \<Rightarrow> world \<Rightarrow> number \<times> world" where
  \<comment> \<open>the limit price, or the mark price of a market order, or 1 when it cannot be read\<close>
  "buy_currentPrice ex p binanceSymbol w =
     (if opt_truthy (bp_price p) then (the (bp_price p), w)
      else (case x_markPrice ex (trace w) binanceSymbol of
              Inr markPrice \<Rightarrow> (markPrice, emit (MarkPrice binanceSymbol) w)
            | Inl e \<Rightarrow> (Fin 1, emit (MarkPrice binanceSymbol) w)))"

definition buy_minAmount :: "string \<Rightarrow> number" where
  \<comment> \<open>\<^verbatim>\<open>Math.pow(10, -(SYMBOL_PRECISION[binanceSymbol]?.quantity || 3))\<close>\<close>
  "buy_minAmount binanceSymbol = pow10 (- quantityOr3 SYMBOL_PRECISION_buy binanceSymbol)"

definition suggestedMultiplier :: "number \<Rightarrow> number \<Rightarrow> number \<Rightarrow> number" where
  "suggestedMultiplier amount minAmount currentPrice =
     (let currentPositionValue = nmul amount currentPrice;
          minPositionValue = nmul minAmount currentPrice
      in nceil (ndiv minPositionValue currentPositionValue))"

definition suggestedLeverage :: "number \<Rightarrow> number \<Rightarrow> number" where
  "suggestedLeverage leverage multiplier = nmin (nmul leverage multiplier) (Fin 30)"

definition MAX_SAFE_LEVERAGE :: number where
  "MAX_SAFE_LEVERAGE = Fin 30"

definition MAX_POSITION_MULTIPLIER :: number where
  "MAX_POSITION_MULTIPLIER = Fin 20"

definition autoScaled :: "number \<Rightarrow> string \<Rightarrow> bool" where
  \<comment> \<open>\<^verbatim>\<open>adjustedAmount === 0 || adjustedAmount < minAmount\<close>: the rounded quantity is below
     the minimum tradable quantity\<close>
  "autoScaled amount binanceSymbol =
     (let adjustedAmount = adjustPrecision SYMBOL_PRECISION_buy amount binanceSymbol
      in nseq adjustedAmount (Fin 0) \<or> nlt adjustedAmount (buy_minAmount binanceSymbol))"

definition buy_sizing ::
  "number \<Rightarrow> number \<Rightarrow> string \<Rightarrow> string \<Rightarrow> number \<Rightarrow> buy_error + number \<times> number" where
  \<comment> \<open>\<^verbatim>\<open>adjustedAmount\<close> and \<^verbatim>\<open>effectiveLeverage\<close>, or the error that is returned\<close>
  "buy_sizing amount leverage symbol binanceSymbol currentPrice =
     (let adjustedAmount = adjustPrecision SYMBOL_PRECISION_buy amount binanceSymbol;
          minAmount = buy_minAmount binanceSymbol;
          scaled =
            (if autoScaled amount binanceSymbol
             then
               let multiplier = suggestedMultiplier amount minAmount currentPrice;
                   lev = suggestedLeverage leverage multiplier
               in if nle lev MAX_SAFE_LEVERAGE \<and> nle multiplier MAX_POSITION_MULTIPLIER
                  then Inr (minAmount, lev)
                  else Inl (AmountTooSmall amount symbol minAmount lev)
             else Inr (adjustedAmount, leverage))
      in case scaled of
           Inl e \<Rightarrow> Inl e
         | Inr (adjustedAmount, effectiveLeverage) \<Rightarrow>
             if nle adjustedAmount (Fin 0) \<or> nlt adjustedAmount minAmount
             then Inl (InvalidAdjustedAmount adjustedAmount symbol minAmount amount)
             else Inr (adjustedAmount, effectiveLeverage))"

definition checkMinNotional :: "number \<Rightarrow> string \<Rightarrow> number option \<Rightarrow> buy_error option" where
  \<comment> \<open>\<open>None\<close> is \<^verbatim>\<open>{ valid: true }\<close>\<close>
  "checkMinNotional amount symbol price =
     (let minNotional =
            (case SYMBOL_PRECISION_buy symbol of
               Some config \<Rightarrow> Some (sp_minNotional config)
             | None \<Rightarrow>
                 if inherited symbol then None \<comment> \<open>\<^verbatim>\<open>config.minNotional\<close> is \<^verbatim>\<open>undefined\<close>\<close>
                 else Some (sp_minNotional DEFAULT_PRECISION))
      in if \<not> opt_truthy price then None
         else
           let notional = nmul amount (the price)
           in case minNotional of
                None \<Rightarrow> None \<comment> \<open>\<^verbatim>\<open>notional < undefined\<close> is false\<close>
              | Some m \<Rightarrow>
                  if nlt notional m then Some (OrderValueBelowMinimum notional m) else None)"

definition buy_orderParams :: "BuyParams \<Rightarrow> positionMode \<Rightarrow> number \<Rightarrow> order_params" where
  "buy_orderParams p positionMode adjustedAmount =
     \<lparr>op_quantity = Some adjustedAmount,
      op_price = (if opt_truthy (bp_price p) then bp_price p else None),
      op_timeInForce = (if opt_truthy (bp_price p) then Some ''GTC'' else None),
      op_positionSide = (if positionMode = DUAL_SIDE then Some ''LONG'' else None),
      op_reduceOnly = False,
      op_stopPrice = None,
      op_closePosition = False\<rparr>"

definition buy_sltpParams :: "BuyParams \<Rightarrow> StopLossTakeProfitParams" where
  \<comment> \<open>the percentages are passed on when they are numbers\<close>
  "buy_sltpParams p =
     \<lparr>tp_symbol = bp_symbol p, tp_stopLoss = None, tp_takeProfit = None,
      tp_stopLossPercent = bp_stopLossPercent p, tp_takeProfitPercent = bp_takeProfitPercent p,
      tp_trailingStopPercent = None\<rparr>"

function buy_sltpLoop ::
  "exchange \<Rightarrow> StopLossTakeProfitParams \<Rightarrow> nat \<Rightarrow> world \<Rightarrow> bool \<times> world" where
  \<comment> \<open>\<^verbatim>\<open>for (let attempt = 1; attempt <= 3; attempt++)\<close> around \<^verbatim>\<open>setStopLossTakeProfit\<close>;
     the result is \<^verbatim>\<open>slTpSuccess\<close>\<close>
  "buy_sltpLoop ex sp attempt w =
     (if 3 < attempt then (False, w)
      else
        case setStopLossTakeProfit ex sp w of
          (slTpResult, w1) \<Rightarrow>
            if st_success slTpResult then (True, w1)
            else if attempt < 3
            then buy_sltpLoop ex sp (attempt + 1)
                   (emit (Sleep (if attempt = 1 then 3000 else 5000)) w1)
            else (False, w1))"
  by pat_completeness auto
termination
  by (relation "measure (\<lambda>(ex, sp, attempt, w). 3 - attempt)") auto

definition buy_protect :: "exchange \<Rightarrow> BuyParams \<Rightarrow> world \<Rightarrow> bool \<times> world" where
  \<comment> \<open>the block \<^verbatim>\<open>if (autoSetStopLoss) { .. }\<close>: an 8 s wait, then up to three attempts;
     when all fail the function logs a warning and goes on\<close>
  "buy_protect ex p w =
     (if (case bp_autoSetStopLoss p of Some b \<Rightarrow> b | None \<Rightarrow> True)
      then buy_sltpLoop ex (buy_sltpParams p) 1 (emit (Sleep 8000) w)
      else (False, w))"

definition buy_result :: "order_data \<Rightarrow> BuyResult" where
  "buy_result orderResult =
     \<lparr>br_success = True,
      br_orderId = od_orderId orderResult,
      br_executedPrice = Some (executedPrice_of orderResult),
      br_executedAmount = Some (executedAmount_of orderResult),
      br_error = None\<rparr>"

definition buy_submit ::
  "exchange \<Rightarrow> BuyParams \<Rightarrow> string \<Rightarrow> number \<Rightarrow> number \<Rightarrow> world \<Rightarrow> (js_error + order_data) \<times> world"
  where
  \<comment> \<open>leverage, position mode and the submission loop: the thrown error or \<^verbatim>\<open>orderResult\<close>\<close>
  "buy_submit ex p binanceSymbol adjustedAmount effectiveLeverage w =
     (let w1 = emit (ChangeInitialLeverage binanceSymbol effectiveLeverage) w
      in case getPositionMode_buy ex w1 of
           (positionMode, w2) \<Rightarrow>
             (case orderLoop 3000 ex binanceSymbol ''BUY''
                     (if opt_truthy (bp_price p) then ''LIMIT'' else ''MARKET'')
                     (buy_orderParams p positionMode adjustedAmount) 1 None w2 of
                (Inl e, w3) \<Rightarrow> (Inl e, w3)
              | (Inr (None, Some e), w3) \<Rightarrow> (Inl e, w3)
              | (Inr (None, None), w3) \<Rightarrow>
                  (Inl \<lparr>err_message = ''Failed to create order after 3 attempts'',
                        err_response_msg = None\<rparr>, w3)
              | (Inr (Some orderResult, lastError), w3) \<Rightarrow> (Inr orderResult, w3)))"

definition buy_try :: "exchange \<Rightarrow> BuyParams \<Rightarrow> world \<Rightarrow> (js_error + BuyResult) \<times> world" where
  \<comment> \<open>the body of the \<^verbatim>\<open>try\<close> block\<close>
  "buy_try ex p w =
     (case buy_connect ex w of
        (Some e, w1) \<Rightarrow> (Inl e, w1)
      | (None, w1) \<Rightarrow>
          let binanceSymbol = toBinanceSymbol (bp_symbol p)
          in case buy_currentPrice ex p binanceSymbol w1 of
               (currentPrice, w2) \<Rightarrow>
                 (case buy_sizing (bp_amount p) (buy_leverage p) (bp_symbol p) binanceSymbol currentPrice of
                    Inl err \<Rightarrow> (Inr (buy_fail err), w2)
                  | Inr (adjustedAmount, effectiveLeverage) \<Rightarrow>
                      (case (if opt_truthy (bp_price p)
                             then checkMinNotional adjustedAmount binanceSymbol (bp_price p)
                             else None) of
                         Some err \<Rightarrow> (Inr (buy_fail err), w2)
                       | None \<Rightarrow>
                           (case buy_submit ex p binanceSymbol adjustedAmount effectiveLeverage w2 of
                              (Inl e, w3) \<Rightarrow> (Inl e, w3)
                            | (Inr orderResult, w3) \<Rightarrow>
                                (case buy_protect ex p w3 of
                                   (slTpSuccess, w4) \<Rightarrow> (Inr (buy_result orderResult), w4))))))"

definition buy :: "exchange \<Rightarrow> BuyParams \<Rightarrow> world \<Rightarrow> BuyResult \<times> world" where
  "buy ex p w =
     (case buy_validate p of
        Some err \<Rightarrow> (buy_fail err, w)
      | None \<Rightarrow>
          (case buy_try ex p w of
             (Inr r, w1) \<Rightarrow> (r, w1)
           | (Inl e, w1) \<Rightarrow>
               (buy_fail (BuyThrown (if err_message e \<noteq> [] then err_message e
                                     else ''Unknown error occurred during buy'')), w1)))"


section \<open>Kinds of events\<close>

fun quiet :: "event \<Rightarrow> bool" where
  \<comment> \<open>neither an order nor a change of leverage\<close>
  "quiet (NewOrder s sd ty ps) = False"
| "quiet (ChangeInitialLeverage s l) = False"
| "quiet e = True"


definition ext :: "(event \<Rightarrow> bool) \<Rightarrow> world \<Rightarrow> world \<Rightarrow> bool" where
  \<comment> \<open>\<open>w'\<close> continues the trace of \<open>w\<close> with events that all satisfy \<open>P\<close>\<close>
  "ext P w w' = (\<exists>es. trace w' = trace w @ es \<and> list_all P es)"





section \<open>Exit orders (\<^verbatim>\<open>lib/trading/sell.ts\<close>)\<close>

record SellParams =
  sl_symbol :: string
  sl_percentage :: "number option" \<comment> \<open>default 100\<close>
  sl_amount :: "number option"
  sl_price :: "number option"

datatype sell_error =
    SellInvalidSymbolFormat
  | PercentageOutOfRange
  | NoOpenPositionFound string
  | FailedToFetchPosition string string
  | SellAmountMustBePositive
  | SellAmountTooSmall number string number
  | SellThrown string \<comment> \<open>the message of an error caught by the outer \<^verbatim>\<open>catch\<close>\<close>

record SellResult =
  sr_success :: bool
  sr_orderId :: "string option"
  sr_executedPrice :: "number option"
  sr_executedAmount :: "number option"
  sr_error :: "sell_error option"

definition sell_fail :: "sell_error \<Rightarrow> SellResult" where
  "sell_fail e = \<lparr>sr_success = False, sr_orderId = None, sr_executedPrice = None,
                  sr_executedAmount = None, sr_error = Some e\<rparr>"

definition sell_errorMessage :: "js_error \<Rightarrow> string" where
  \<comment> \<open>\<^verbatim>\<open>error?.response?.data?.msg || error.message || "Unknown error occurred during sell"\<close>\<close>
  "sell_errorMessage e =
     (case err_response_msg e of
        Some m \<Rightarrow> if m \<noteq> [] then m
                  else if err_message e \<noteq> [] then err_message e
                  else ''Unknown error occurred during sell''
      | None \<Rightarrow> if err_message e \<noteq> [] then err_message e
                else ''Unknown error occurred during sell'')"

definition sell_amount ::
  "exchange \<Rightarrow> SellParams \<Rightarrow> string \<Rightarrow> world \<Rightarrow> (SellResult + number \<times> string) \<times> world" where
  \<comment> \<open>the amount to sell and the side of the position: the given amount, or the given
     percentage of the open position\<close>
  "sell_amount ex p binanceSymbol w =
     (let percentage = (case sl_percentage p of Some x \<Rightarrow> x | None \<Rightarrow> Fin 100);
          given = (case sl_amount p of Some a \<Rightarrow> truthy a | None \<Rightarrow> False)
      in if given then (Inr (the (sl_amount p), ''LONG''), w)
         else
           let w1 = emit FetchPositions w
           in case x_fetchPositions ex (trace w) of
                Inl e \<Rightarrow> (Inl (sell_fail (FailedToFetchPosition (sl_symbol p) (err_message e))), w1)
              | Inr positions \<Rightarrow>
                  (case find (\<lambda>q. pos_symbol q = binanceSymbol \<and> pos_contracts q \<noteq> Fin 0) positions of
                     None \<Rightarrow> (Inl (sell_fail (NoOpenPositionFound (sl_symbol p))), w1)
                   | Some position \<Rightarrow>
                       if \<not> truthy (pos_contracts position)
                       then (Inl (sell_fail (NoOpenPositionFound (sl_symbol p))), w1)
                       else (Inr (nmul (nabs (pos_contracts position)) (ndiv percentage (Fin 100)),
                                  if pos_side position = ''long'' then ''LONG'' else ''SHORT''), w1)))"

definition sell_request ::
  "SellParams \<Rightarrow> string \<Rightarrow> number \<Rightarrow> string \<Rightarrow> SellResult + string \<times> string \<times> order_params" where
  \<comment> \<open>the order that is submitted: side, type and parameters\<close>
  "sell_request p binanceSymbol sellAmount positionSide =
     (if nle sellAmount (Fin 0) then Inl (sell_fail SellAmountMustBePositive)
      else
        let adjustedAmount = adjustPrecision SYMBOL_PRECISION_sell sellAmount binanceSymbol
        in if nseq adjustedAmount (Fin 0)
           then Inl (sell_fail (SellAmountTooSmall sellAmount (sl_symbol p)
                                  (pow10 (- quantityOr3 SYMBOL_PRECISION_sell binanceSymbol))))
           else
             let limit = (case sl_price p of Some x \<Rightarrow> truthy x | None \<Rightarrow> False);
                 orderType = (if limit then ''LIMIT'' else ''MARKET'');
                 side = (if positionSide = ''LONG'' then ''SELL'' else ''BUY'');
                 orderParams =
                   \<lparr>op_quantity = Some adjustedAmount,
                    op_price = (if limit then sl_price p else None),
                    op_timeInForce = (if limit then Some ''GTC'' else None),
                    op_positionSide = None,
                    op_reduceOnly = True,
                    op_stopPrice = None,
                    op_closePosition = False\<rparr>
             in Inr (side, orderType, orderParams))"

definition sell_submit ::
  "exchange \<Rightarrow> string \<Rightarrow> string \<times> string \<times> order_params \<Rightarrow> world \<Rightarrow> (js_error + SellResult) \<times> world"
  where
  "sell_submit ex binanceSymbol req w =
     (case req of (side, orderType, orderParams) \<Rightarrow>
        (case orderLoop 2000 ex binanceSymbol side orderType orderParams 1 None w of
           (Inl e, w1) \<Rightarrow> (Inl e, w1)
         | (Inr (None, Some e), w1) \<Rightarrow> (Inl e, w1)
         | (Inr (None, None), w1) \<Rightarrow>
             (Inl \<lparr>err_message = ''Failed to create sell order after 3 attempts'',
                   err_response_msg = None\<rparr>, w1)
         | (Inr (Some orderResult, lastError), w1) \<Rightarrow>
             (Inr \<lparr>sr_success = True,
                   sr_orderId = od_orderId orderResult,
                   sr_executedPrice = Some (executedPrice_of orderResult),
                   sr_executedAmount = Some (executedAmount_of orderResult),
                   sr_error = None\<rparr>, w1)))"

definition sell_try :: "exchange \<Rightarrow> SellParams \<Rightarrow> world \<Rightarrow> (js_error + SellResult) \<times> world" where
  \<comment> \<open>the body of the \<^verbatim>\<open>try\<close> block\<close>
  "sell_try ex p w =
     (case ensureTimeSync ex w of
        (Some e, w1) \<Rightarrow> (Inl e, w1)
      | (None, w1) \<Rightarrow>
          (case getBinanceInstance ex w1 of
             (Some e, w2) \<Rightarrow> (Inl e, w2)
           | (None, w2) \<Rightarrow>
               let binanceSymbol = toBinanceSymbol (sl_symbol p)
               in (case sell_amount ex p binanceSymbol w2 of
                     (Inl r, w3) \<Rightarrow> (Inr r, w3)
                   | (Inr (sellAmount, positionSide), w3) \<Rightarrow>
                       (case sell_request p binanceSymbol sellAmount positionSide of
                          Inl r \<Rightarrow> (Inr r, w3)
                        | Inr req \<Rightarrow> sell_submit ex binanceSymbol req w3))))"

definition sell :: "exchange \<Rightarrow> SellParams \<Rightarrow> world \<Rightarrow> SellResult \<times> world" where
  "sell ex p w =
     (let percentage = (case sl_percentage p of Some x \<Rightarrow> x | None \<Rightarrow> Fin 100)
      in if sl_symbol p = [] \<or> \<not> includesSlash (sl_symbol p)
         then (sell_fail SellInvalidSymbolFormat, w)
         else if nle percentage (Fin 0) \<or> ngt percentage (Fin 100)
         then (sell_fail PercentageOutOfRange, w)
         else
           case sell_try ex p w of
             (Inr r, w1) \<Rightarrow> (r, w1)
           | (Inl e, w1) \<Rightarrow> (sell_fail (SellThrown (sell_errorMessage e)), w1))"


section \<open>Session acquisition (binance-official.ts)\<close>

text \<open>
  \<^verbatim>\<open>getBinanceInstance\<close> is a synchronous function that memoizes the promise of an
  async function. JavaScript runs one job at a time: a call of \<^verbatim>\<open>getBinanceInstance\<close>
  runs to its \<^verbatim>\<open>return\<close>, and the async body that it may start runs to its first
  \<^verbatim>\<open>await\<close>, before any other job; the body goes on, one job for each settled
  \<^verbatim>\<open>await\<close>. The state is the module variable \<^verbatim>\<open>initializationPromise\<close>, the
  promises made so far by the async body (a promise is identified by its index, a
  client by the number of clients constructed before it), and the requests made. The
  proxy set-up of the body only changes the options of the client and is left out.
\<close>

datatype init_error = NotConfigured | FailedToConnect

datatype suspension =
    AwaitPing nat \<comment> \<open>\<^verbatim>\<open>await binanceClient.ping()\<close> of the given attempt\<close>
  | AwaitSyncServerTime nat \<comment> \<open>\<^verbatim>\<open>await syncServerTime(binanceClient)\<close> of the given attempt\<close>
  | AwaitDelay nat \<comment> \<open>the wait after the given attempt has failed\<close>

datatype promise =
    Suspended nat suspension \<comment> \<open>pending: the body, with its client, waits at an \<^verbatim>\<open>await\<close>\<close>
  | Fulfilled nat \<comment> \<open>\<^verbatim>\<open>return binanceClient\<close>\<close>
  | Rejected init_error

datatype handshake = NewUMFutures nat | Ping nat nat | SyncTime nat | Delay nat nat

record session_env =
  credentials :: bool \<comment> \<open>\<^verbatim>\<open>apiKey && apiSecret\<close> of the trading mode\<close>
  constructs :: bool \<comment> \<open>\<^verbatim>\<open>new UMFutures(..)\<close> does not throw\<close>

record session =
  initializationPromise :: "nat option"
  promises :: "promise list"
  clients :: nat
  handshakes :: "handshake list"

definition initialization :: "session_env \<Rightarrow> session \<Rightarrow> nat \<times> session" where
  \<comment> \<open>\<^verbatim>\<open>(async () => { .. })()\<close>: the body up to its first \<^verbatim>\<open>await\<close>, and the promise
     of the call\<close>
  "initialization env s =
     (let p = length (promises s)
      in if \<not> credentials env
         then (p, s\<lparr>promises := promises s @ [Rejected NotConfigured]\<rparr>)
         else if \<not> constructs env
         then (p, s\<lparr>promises := promises s @ [Rejected FailedToConnect]\<rparr>)
         else
           let binanceClient = clients s
           in (p, s\<lparr>promises := promises s @ [Suspended binanceClient (AwaitPing 1)],
                    clients := binanceClient + 1,
                    handshakes := handshakes s @ [NewUMFutures binanceClient, Ping binanceClient 1]\<rparr>))"

definition getBinanceInstance_session :: "session_env \<Rightarrow> session \<Rightarrow> nat \<times> session" where
  \<comment> \<open>\<^verbatim>\<open>getBinanceInstance\<close> of binance-official.ts; the result is the promise returned\<close>
  "getBinanceInstance_session env s =
     (case initializationPromise s of
        None \<Rightarrow>
          (case initialization env s of
             (p, s1) \<Rightarrow> (p, s1\<lparr>initializationPromise := Some p\<rparr>))
      | Some p \<Rightarrow> (p, s))"

definition attemptFailed :: "nat \<Rightarrow> nat \<Rightarrow> promise \<times> handshake list" where
  \<comment> \<open>\<^verbatim>\<open>catch (testError)\<close>: a wait of \<open>attempt * 5000\<close> ms before the next attempt; after
     the fifth attempt the loop ends and the body throws\<close>
  "attemptFailed binanceClient attempt =
     (if attempt < 5
      then (Suspended binanceClient (AwaitDelay attempt), [Delay binanceClient (attempt * 5000)])
      else (Rejected FailedToConnect, []))"

fun resume :: "nat \<Rightarrow> suspension \<Rightarrow> bool \<Rightarrow> promise \<times> handshake list" where
  \<comment> \<open>the body from one \<^verbatim>\<open>await\<close> to the next; \<open>ok\<close> tells whether the awaited promise
     was fulfilled (\<^verbatim>\<open>syncServerTime\<close> catches its own errors and a timer does not fail;
     a rejection there would be caught like one of the ping)\<close>
  "resume binanceClient (AwaitPing attempt) ok =
     (if ok then (Suspended binanceClient (AwaitSyncServerTime attempt), [SyncTime binanceClient])
      else attemptFailed binanceClient attempt)"
| "resume binanceClient (AwaitSyncServerTime attempt) ok =
     (if ok then (Fulfilled binanceClient, []) else attemptFailed binanceClient attempt)"
| "resume binanceClient (AwaitDelay attempt) ok =
     (Suspended binanceClient (AwaitPing (attempt + 1)), [Ping binanceClient (attempt + 1)])"

definition settle :: "nat \<Rightarrow> bool \<Rightarrow> session \<Rightarrow> session" where
  \<comment> \<open>the operation awaited by the body of promise \<open>p\<close> settles; nothing happens when
     that body is not waiting\<close>
  "settle p ok s =
     (if p < length (promises s)
      then (case promises s ! p of
              Suspended binanceClient point \<Rightarrow>
                (case resume binanceClient point ok of
                   (q, hs) \<Rightarrow> s\<lparr>promises := (promises s)[p := q],
                                  handshakes := handshakes s @ hs\<rparr>)
            | Fulfilled binanceClient \<Rightarrow> s
            | Rejected e \<Rightarrow> s)
      else s)"

datatype job = Call | Settle nat bool

fun run :: "session_env \<Rightarrow> job list \<Rightarrow> session \<Rightarrow> nat list \<times> session" where
  \<comment> \<open>the jobs in the order in which the event loop runs them; the result lists the
     promises returned to the callers, in the order of the calls\<close>
  "run env [] s = ([], s)"
| "run env (Call # js) s =
     (case getBinanceInstance_session env s of
        (p, s1) \<Rightarrow> (case run env js s1 of (ps, s2) \<Rightarrow> (p # ps, s2)))"
| "run env (Settle p ok # js) s = run env js (settle p ok s)"

definition session0 :: session where
  \<comment> \<open>the module when it is loaded: \<^verbatim>\<open>let initializationPromise = null\<close>\<close>
  "session0 = \<lparr>initializationPromise = None, promises = [], clients = 0, handshakes = []\<rparr>"

definition promise_of :: "session \<Rightarrow> nat \<Rightarrow> promise option" where
  "promise_of s p = (if p < length (promises s) then Some (promises s ! p) else None)"

fun settled :: "promise option \<Rightarrow> bool" where
  "settled (Some (Fulfilled binanceClient)) = True"
| "settled (Some (Rejected e)) = True"
| "settled (Some (Suspended binanceClient point)) = False"
| "settled None = False"

fun client_of :: "handshake \<Rightarrow> nat" where
  "client_of (NewUMFutures c) = c"
| "client_of (Ping c attempt) = c"
| "client_of (SyncTime c) = c"
| "client_of (Delay c ms) = c"

definition single_flight :: "session \<Rightarrow> bool" where
  \<comment> \<open>the invariant of the module state\<close>
  "single_flight s =
     ((case initializationPromise s of
         None \<Rightarrow> promises s = [] \<and> clients s = 0 \<and> handshakes s = []
       | Some p \<Rightarrow> p = 0 \<and> length (promises s) = 1)
      \<and> clients s \<le> 1
      \<and> list_all (\<lambda>h. client_of h = 0) (handshakes s)
      \<and> list_all (\<lambda>q. case q of Suspended c point \<Rightarrow> c = 0 | Fulfilled c \<Rightarrow> c = 0 | Rejected e \<Rightarrow> True)
           (promises s))"


section \<open>Concrete inputs\<close>

definition cfg20 :: RiskConfig where
  \<comment> \<open>the default configuration of \<^verbatim>\<open>getRiskConfig\<close>: a daily loss limit of 20 percent\<close>
  "cfg20 = \<lparr>tradingMode = ''dry-run'', maxPositionSizeUSDT = Fin 5000, maxLeverage = Fin 30,
            dailyLossLimitPercent = Fin 20\<rparr>"

definition stats35 :: LearningStats where
  "stats35 = \<lparr>total_trades = Fin 20, winning_trades = Fin 7, losing_trades = Fin 13,
              win_rate = Fin 35, avg_profit = Fin 2, avg_loss = Fin (- 1), total_pnl = Fin 1\<rparr>"

definition stats35_loss :: LearningStats where
  "stats35_loss = stats35\<lparr>total_pnl := Fin (- 11)\<rparr>"

definition world0 :: world where
  \<comment> \<open>a fresh process: nothing done yet, no position mode cached\<close>
  "world0 = \<lparr>trace = [], positionModeCache_buy = None, positionModeCache_sltp = None\<rparr>"

definition world_connected :: world where
  "world_connected = world0\<lparr>trace := [GetBinanceInstance, SyncServerTime, GetBinanceInstance]\<rparr>"

definition margin_error :: js_error where
  "margin_error = \<lparr>err_message = ''Request failed with status code 400'',
                    err_response_msg = Some ''Margin is insufficient.''\<rparr>"

definition ex_rejecting :: exchange where
  \<comment> \<open>an exchange that rejects every order for lack of margin\<close>
  "ex_rejecting =
     \<lparr>x_instance = (\<lambda>t. None),
      x_markPrice = (\<lambda>t s. Inr (Fin 2000)),
      x_positionMode = (\<lambda>t. Some False),
      x_newOrder = (\<lambda>t s sd ty ps. Inl margin_error),
      x_fetchPositions = (\<lambda>t. Inr []),
      x_marketState = (\<lambda>t s. Inr (Fin 2000, Fin 40)),
      x_openOrders = (\<lambda>t s. []),
      x_cancelOrder = (\<lambda>t s i. True)\<rparr>"



definition ex_btc :: exchange where
  "ex_btc = ex_rejecting\<lparr>x_markPrice := (\<lambda>t s. Inr (Fin 60000))\<rparr>"

definition tiny_btc :: BuyParams where
  "tiny_btc = \<lparr>bp_symbol = ''BTC/USDT'', bp_amount = lit (5/10000), bp_leverage = Some (Fin 3),
      bp_price = None, bp_autoSetStopLoss = Some False, bp_stopLossPercent = None,
      bp_takeProfitPercent = None\<rparr>"


definition zero_btc :: BuyParams where
  "zero_btc = tiny_btc\<lparr>bp_amount := Fin 0\<rparr>"

definition eth_filled :: order_data where
  "eth_filled = \<lparr>od_orderId = Some ''8389765'', od_avgPrice = Some (Fin 2000), od_price = Some (Fin 0),
                 od_executedQty = Some (Fin (1/2)), od_origQty = Some (Fin (1/2))\<rparr>"

definition eth_long :: Position where
  "eth_long = \<lparr>pos_symbol = ''ETHUSDT'', pos_side = ''long'', pos_contracts = Fin (1/2),
               pos_entryPrice = Fin 2000, pos_markPrice = Fin 2000, pos_unrealizedPnl = Fin 0\<rparr>"

definition ex_accepting :: exchange where
  \<comment> \<open>an exchange that accepts every order and shows one long position of 0.5 ETH at 2000\<close>
  "ex_accepting =
     \<lparr>x_instance = (\<lambda>t. None),
      x_markPrice = (\<lambda>t s. Inr (Fin 2000)),
      x_positionMode = (\<lambda>t. Some False),
      x_newOrder = (\<lambda>t s sd ty ps. Inr (Some eth_filled)),
      x_fetchPositions = (\<lambda>t. Inr [eth_long]),
      x_marketState = (\<lambda>t s. Inr (Fin 2000, Fin 40)),
      x_openOrders = (\<lambda>t s. []),
      x_cancelOrder = (\<lambda>t s i. True)\<rparr>"

definition ex_stop_rejected :: exchange where
  \<comment> \<open>the same exchange, but it rejects every stop-market order\<close>
  "ex_stop_rejected =
     ex_accepting\<lparr>x_newOrder := (\<lambda>t s sd ty ps.
        if ty = ''STOP_MARKET'' then Inl margin_error else Inr (Some eth_filled))\<rparr>"

definition protect_both :: StopLossTakeProfitParams where
  "protect_both = \<lparr>tp_symbol = ''ETH/USDT'', tp_stopLoss = Some (Fin 1900),
      tp_takeProfit = Some (Fin 2200), tp_stopLossPercent = None, tp_takeProfitPercent = None,
      tp_trailingStopPercent = None\<rparr>"

definition stop_above :: StopLossTakeProfitParams where
  \<comment> \<open>a stop price above the entry price of the long position\<close>
  "stop_above = protect_both\<lparr>tp_stopLoss := Some (Fin 2100)\<rparr>"

definition target_below :: StopLossTakeProfitParams where
  \<comment> \<open>a take-profit price below the entry price of the long position\<close>
  "target_below = protect_both\<lparr>tp_takeProfit := Some (Fin 1900)\<rparr>"

definition buy_half_eth :: BuyParams where
  "buy_half_eth = \<lparr>bp_symbol = ''ETH/USDT'', bp_amount = Fin (1/2), bp_leverage = None, bp_price = None,
      bp_autoSetStopLoss = None, bp_stopLossPercent = Some (Fin 3), bp_takeProfitPercent = Some (Fin 10)\<rparr>"

definition half_eth_entry :: order_params where
  "half_eth_entry = \<lparr>op_quantity = Some (Fin (1/2)), op_price = None, op_timeInForce = None,
      op_positionSide = None, op_reduceOnly = False, op_stopPrice = None, op_closePosition = False\<rparr>"

definition world_entered :: world where
  \<comment> \<open>the process state of \<^verbatim>\<open>buy\<close> on \<open>buy_half_eth\<close> once the entry order is filled\<close>
  "world_entered =
     \<lparr>trace = [GetBinanceInstance, SyncServerTime, GetBinanceInstance, MarkPrice ''ETHUSDT'',
               ChangeInitialLeverage ''ETHUSDT'' (Fin 10),
               GetBinanceInstance, GetBinanceInstance, SyncServerTime, QueryPositionMode,
               NewOrder ''ETHUSDT'' ''BUY'' ''MARKET'' half_eth_entry],
      positionModeCache_buy = Some ONE_WAY,
      positionModeCache_sltp = None\<rparr>"





definition eth_short :: Position where
  "eth_short = eth_long\<lparr>pos_side := ''short''\<rparr>"


definition target_above :: StopLossTakeProfitParams where
  \<comment> \<open>for the short position: a stop above the entry price, a take-profit price above it too\<close>
  "target_above = protect_both\<lparr>tp_stopLoss := Some (Fin 2100), tp_takeProfit := Some (Fin 2200)\<rparr>"

definition env_ok :: session_env where
  "env_ok = \<lparr>credentials = True, constructs = True\<rparr>"

definition first_callers :: "job list" where
  \<comment> \<open>two calls before the ping has answered, a third one before the time is synced\<close>
  "first_callers = [Call, Call, Settle 0 True, Call]"

definition later_callers :: "job list" where
  \<comment> \<open>the time sync completes, two more calls\<close>
  "later_callers = [Settle 0 True, Call, Call]"




definition cfg29 :: RiskConfig where
  \<comment> \<open>\<^verbatim>\<open>DAILY_LOSS_LIMIT_PERCENT=29\<close>\<close>
  "cfg29 = cfg20\<lparr>dailyLossLimitPercent := Fin 29\<rparr>"


section \<open>Facts about numbers\<close>

lemma binary64_not_NaN [simp]: "binary64 r \<noteq> NaN"
  by (simp add: binary64_def Let_def)

lemma lit_not_NaN [simp]: "lit r \<noteq> NaN"
  by (simp add: lit_def)

lemma nlt_irrefl [simp]: "\<not> nlt x x"
  by (cases x) simp_all

lemma nlt_not_NaN: "nlt x y \<Longrightarrow> x \<noteq> NaN \<and> y \<noteq> NaN"
  by (cases x; cases y) auto

lemma nlt_imp_not_nge: "nlt x y \<Longrightarrow> \<not> nge x y"
  by (cases x; cases y) (auto simp: nge_def nle_def nseq_def)

lemma nle_iff_not_nlt: "x \<noteq> NaN \<Longrightarrow> y \<noteq> NaN \<Longrightarrow> nle y x \<longleftrightarrow> \<not> nlt x y"
  by (cases x; cases y) (auto simp: nle_def nseq_def)

lemma nge_nmax: "x \<noteq> NaN \<Longrightarrow> y \<noteq> NaN \<Longrightarrow> nge (nmax x y) y"
  by (cases x; cases y) (auto simp: nge_def nle_def nseq_def nmax_def)


section \<open>Facts about traces\<close>

lemma trace_emit [simp]: "trace (emit e w) = trace w @ [e]"
  by (simp add: emit_def)

lemma ext_refl [simp]: "ext P w w"
  by (simp add: ext_def)


lemma ext_trans: "ext P w w1 \<Longrightarrow> ext P w1 w2 \<Longrightarrow> ext P w w2"
  by (auto simp: ext_def)


lemma ext_trace: "ext P w w' \<Longrightarrow> trace w' = trace w @ new_events w w'"
  by (auto simp: ext_def new_events_def)

lemma getBinanceInstance_quiet:
  "getBinanceInstance ex w0 = (r, w1) \<Longrightarrow> ext quiet w0 w1"
  by (auto simp: getBinanceInstance_def ext_def)


lemma getPositionMode_sltp_quiet:
  "getPositionMode_sltp ex w0 = (r, w1) \<Longrightarrow> ext quiet w0 w1"
  by (auto simp: getPositionMode_sltp_def Let_def ext_def split: prod.splits option.splits
           dest!: getBinanceInstance_quiet [unfolded ext_def])


lemma cancelEach_quiet:
  "cancelEach ex s os n w0 = (r, w1) \<Longrightarrow> ext quiet w0 w1"
proof (induction os arbitrary: n w0)
  case Nil
  then show ?case by simp
next
  case (Cons a os)
  then have "ext quiet (emit (CancelOrder s (oo_orderId a)) w0) w1"
    by (auto split: if_splits)
  then show ?case by (auto simp: ext_def)
qed

lemma cancelStopLossTakeProfitForPosition_quiet:
  "cancelStopLossTakeProfitForPosition ex s side w0 = (r, w1) \<Longrightarrow> ext quiet w0 w1"
  by (auto simp: cancelStopLossTakeProfitForPosition_def Let_def ext_def
           split: prod.splits option.splits if_splits
           dest!: getBinanceInstance_quiet [unfolded ext_def]
                  getPositionMode_sltp_quiet [unfolded ext_def] cancelEach_quiet [unfolded ext_def])

lemma sltp_cleanup_quiet:
  "ext quiet w0 (sltp_cleanup ex s isLong w0)"
  by (auto simp: sltp_cleanup_def ext_def split: prod.splits if_splits
           dest!: cancelStopLossTakeProfitForPosition_quiet [unfolded ext_def])

lemma sltp_derivePrices_quiet:
  "sltp_derivePrices ex p isLong entry w0 = (r, w1) \<Longrightarrow> ext quiet w0 w1"
  by (auto simp: sltp_derivePrices_def Let_def ext_def split: prod.splits if_splits)

lemma sltp_prepare_quiet:
  assumes "sltp_prepare ex p position w0 = (r, w1)"
  shows "ext quiet w0 w1"
proof -
  let ?isLong = "pos_side position = ''long''"
  obtain fs wa where d: "sltp_derivePrices ex p ?isLong (pos_entryPrice position) w0 = (fs, wa)"
    by (metis surj_pair)
  let ?wb = "sltp_cleanup ex (toBinanceSymbol (tp_symbol p)) ?isLong wa"
  obtain m wc where g: "getPositionMode_sltp ex ?wb = (m, wc)"
    by force
  have "w1 = wc"
    using assms d g by (simp add: sltp_prepare_def Let_def split: prod.splits)
  moreover have "ext quiet w0 wa"
    using d by (rule sltp_derivePrices_quiet)
  moreover have "ext quiet wa ?wb"
    by (rule sltp_cleanup_quiet)
  moreover have "ext quiet ?wb wc"
    using g by (rule getPositionMode_sltp_quiet)
  ultimately show ?thesis
    by (blast intro: ext_trans)
qed

lemma sltp_position_quiet:
  "sltp_position ex p w0 = (r, w1) \<Longrightarrow> ext quiet w0 w1"
  by (auto simp: sltp_position_def Let_def ext_def split: prod.splits option.splits sum.splits if_splits
           dest!: getBinanceInstance_quiet [unfolded ext_def])










section \<open>Facts about \<^verbatim>\<open>buy\<close>\<close>









lemma new_events_emit [simp]: "new_events w (emit e w) = [e]"
  by (simp add: new_events_def)

lemma new_events_self [simp]: "new_events w w = []"
  by (simp add: new_events_def)












lemma buy_entry_result:
  assumes valid: "buy_validate p = None"
    and conn: "buy_connect ex w = (None, w1)"
    and price: "buy_currentPrice ex p (toBinanceSymbol (bp_symbol p)) w1 = (currentPrice, w2)"
    and sz: "buy_sizing (bp_amount p) (buy_leverage p) (bp_symbol p) (toBinanceSymbol (bp_symbol p))
               currentPrice = Inr (q, lev)"
    and notional: "(if opt_truthy (bp_price p)
                    then checkMinNotional q (toBinanceSymbol (bp_symbol p)) (bp_price p) else None) = None"
    and sub: "buy_submit ex p (toBinanceSymbol (bp_symbol p)) q lev w2 = (Inr orderResult, w3)"
  shows "buy ex p w = (buy_result orderResult, snd (buy_protect ex p w3))"
  using assms by (simp add: buy_def buy_try_def Let_def split: prod.splits)

lemma buy_sltpLoop_all_fail:
  assumes "\<And>w. \<not> st_success (fst (setStopLossTakeProfit ex sp w))"
  shows "fst (buy_sltpLoop ex sp attempt w) = False"
  using assms
proof (induction ex sp attempt w rule: buy_sltpLoop.induct)
  case (1 ex sp attempt w)
  show ?case
  proof (cases "3 < attempt")
    case True
    then show ?thesis by (subst buy_sltpLoop.simps) simp
  next
    case False
    obtain res wa where s: "setStopLossTakeProfit ex sp w = (res, wa)" by force
    have ns: "\<not> st_success res"
      using "1.prems" [of w] s by simp
    show ?thesis
    proof (cases "attempt < 3")
      case True
      have "fst (buy_sltpLoop ex sp (attempt + 1)
                  (emit (Sleep (if attempt = 1 then 3000 else 5000)) wa)) = False"
        using "1.IH" [OF False s [symmetric] ns True] "1.prems" by simp
      then show ?thesis
        using False s ns True by (subst buy_sltpLoop.simps) simp
    next
      case F3: False
      then show ?thesis
        using False s ns by (subst buy_sltpLoop.simps) simp
    qed
  qed
qed

lemma buy_sltpLoop_first_success:
  assumes "st_success (fst (setStopLossTakeProfit ex sp w))"
  shows "fst (buy_sltpLoop ex sp 1 w) = True"
proof -
  obtain res wa where s: "setStopLossTakeProfit ex sp w = (res, wa)" by force
  with assms have "st_success res" by simp
  with s show ?thesis by (subst buy_sltpLoop.simps) simp
qed


lemma connect_world0:
  "x_instance ex = (\<lambda>t. None) \<Longrightarrow> buy_connect ex world0 = (None, world_connected)"
  by (simp add: buy_connect_def ensureTimeSync_def getBinanceInstance_def emit_def world0_def
        world_connected_def)

lemma buy_sltpLoop_third:
  "buy_sltpLoop ex sp 3 w =
     (st_success (fst (setStopLossTakeProfit ex sp w)), snd (setStopLossTakeProfit ex sp w))"
  by (subst buy_sltpLoop.simps) (simp split: prod.splits)

lemma buy_sltpLoop_second:
  "buy_sltpLoop ex sp 2 w =
     (let a2 = setStopLossTakeProfit ex sp w
      in if st_success (fst a2) then (True, snd a2)
         else buy_sltpLoop ex sp 3 (emit (Sleep 5000) (snd a2)))"
  by (subst buy_sltpLoop.simps) (simp split: prod.splits)

lemma buy_sltpLoop_first:
  "buy_sltpLoop ex sp 1 w =
     (let a1 = setStopLossTakeProfit ex sp w
      in if st_success (fst a1) then (True, snd a1)
         else buy_sltpLoop ex sp 2 (emit (Sleep 3000) (snd a1)))"
  by (subst buy_sltpLoop.simps) (simp split: prod.splits)

lemma buy_protect_attempts:
  "buy_protect ex p w =
     (let sp = buy_sltpParams p;
          a1 = setStopLossTakeProfit ex sp (emit (Sleep 8000) w);
          a2 = setStopLossTakeProfit ex sp (emit (Sleep 3000) (snd a1));
          a3 = setStopLossTakeProfit ex sp (emit (Sleep 5000) (snd a2))
      in if \<not> (case bp_autoSetStopLoss p of Some b \<Rightarrow> b | None \<Rightarrow> True) then (False, w)
         else if st_success (fst a1) then (True, snd a1)
         else if st_success (fst a2) then (True, snd a2)
         else (st_success (fst a3), snd a3))"
proof (cases "case bp_autoSetStopLoss p of Some b \<Rightarrow> b | None \<Rightarrow> True")
  case True
  then have nn: "\<not> \<not> (case bp_autoSetStopLoss p of Some b \<Rightarrow> b | None \<Rightarrow> True)"
    by blast
  show ?thesis
    unfolding buy_protect_def Let_def if_P [OF True] if_not_P [OF nn]
      buy_sltpLoop_first buy_sltpLoop_second buy_sltpLoop_third ..
next
  case False
  show ?thesis
    unfolding buy_protect_def Let_def if_not_P [OF False] if_P [OF False] ..
qed


section \<open>Facts about \<^verbatim>\<open>setStopLossTakeProfit\<close>\<close>


lemma sltp_unfold:
  assumes "tp_symbol p \<noteq> []" "includesSlash (tp_symbol p)"
    and "sltp_position ex p w = (Inr (Inr position), w1)"
    and "sltp_prepare ex p position w1 = ((positionMode, finalStopLoss, finalTakeProfit), w2)"
  shows "setStopLossTakeProfit ex p w =
           sltp_legs ex (toBinanceSymbol (tp_symbol p)) (pos_side position = ''long'')
             (pos_entryPrice position) positionMode finalStopLoss finalTakeProfit w2"
    and "ext quiet w w2"
  using assms
  by (auto simp: setStopLossTakeProfit_def intro: ext_trans
           dest: sltp_position_quiet sltp_prepare_quiet)









lemma createStopLoss_creation_fails:
  assumes "opt_truthy sl"
    and "\<not> (isLong \<and> nge (the sl) entry)" "\<not> (\<not> isLong \<and> nle (the sl) entry)"
    and "x_newOrder ex (trace w) s (if isLong then ''SELL'' else ''BUY'') ''STOP_MARKET''
           (protectiveParams m isLong (the sl)) = Inl e"
  shows "createStopLoss ex s isLong entry m sl w =
           (Inl (sltp_fail (FailedToCreateStopLoss (creationMessage e))),
            emit (NewOrder s (if isLong then ''SELL'' else ''BUY'') ''STOP_MARKET''
                    (protectiveParams m isLong (the sl))) w)"
  using assms by (cases isLong) (auto simp: createStopLoss_def Let_def)


lemma protect_symbols:
  "tp_symbol protect_both = ''ETH/USDT''" "tp_symbol stop_above = ''ETH/USDT''"
  "tp_symbol target_below = ''ETH/USDT''" "tp_symbol target_above = ''ETH/USDT''"
  "toBinanceSymbol ''ETH/USDT'' = ''ETHUSDT''" "includesSlash ''ETH/USDT''"
  by (simp_all add: protect_both_def stop_above_def target_below_def target_above_def
        toBinanceSymbol_def includesSlash_def)

lemma eth_position_fields:
  "pos_side eth_long = ''long''" "pos_entryPrice eth_long = Fin 2000"
  "pos_side eth_short \<noteq> ''long''" "pos_entryPrice eth_short = Fin 2000"
  by (simp_all add: eth_long_def eth_short_def)





section \<open>Facts about the runs on the concrete exchanges\<close>

lemma createStopLoss_created:
  assumes "opt_truthy sl"
    and "\<not> (isLong \<and> nge (the sl) entry)" "\<not> (\<not> isLong \<and> nle (the sl) entry)"
    and "x_newOrder ex (trace w) s (if isLong then ''SELL'' else ''BUY'') ''STOP_MARKET''
           (protectiveParams m isLong (the sl)) = Inr (Some dat)"
  shows "createStopLoss ex s isLong entry m sl w =
           (Inr (od_orderId dat),
            emit (NewOrder s (if isLong then ''SELL'' else ''BUY'') ''STOP_MARKET''
                    (protectiveParams m isLong (the sl))) w)"
  using assms by (cases isLong) (auto simp: createStopLoss_def Let_def)

lemma createTakeProfit_created:
  assumes "opt_truthy tp"
    and "\<not> (isLong \<and> nle (the tp) entry)" "\<not> (\<not> isLong \<and> nge (the tp) entry)"
    and "x_newOrder ex (trace w) s (if isLong then ''SELL'' else ''BUY'') ''TAKE_PROFIT_MARKET''
           (protectiveParams m isLong (the tp)) = Inr (Some dat)"
  shows "createTakeProfit ex s isLong entry m tp w =
           (Inr (od_orderId dat),
            emit (NewOrder s (if isLong then ''SELL'' else ''BUY'') ''TAKE_PROFIT_MARKET''
                    (protectiveParams m isLong (the tp))) w)"
  using assms by (cases isLong) (auto simp: createTakeProfit_def Let_def)

lemma half_eth_prices:
  "nmul (Fin 2000) (nsub (Fin 1) (ndiv (Fin 3) (Fin 100))) = Fin 1940"
  "nmul (Fin 2000) (nadd (Fin 1) (ndiv (Fin 10) (Fin 100))) = Fin 2200"
  by code_simp+

lemma half_eth_derivePrices:
  "sltp_derivePrices ex (buy_sltpParams buy_half_eth) True (Fin 2000) w
     = ((Some (Fin 1940), Some (Fin 2200)), w)"
proof -
  have t: "opt_truthy (Some (Fin 3))" "opt_truthy (Some (Fin 10))" "\<not> opt_truthy None"
    by (simp_all add: opt_truthy_def truthy_def)
  show ?thesis
    unfolding sltp_derivePrices_def buy_sltpParams_def buy_half_eth_def
    by (simp only: StopLossTakeProfitParams.simps BuyParams.simps t Let_def if_True if_False
          simp_thms split_conv option.sel half_eth_prices)
qed

lemma half_eth_attempt:
  assumes "x_instance ex = (\<lambda>t. None)" "x_fetchPositions ex = (\<lambda>t. Inr [eth_long])"
  shows "\<exists>m w2. setStopLossTakeProfit ex (buy_sltpParams buy_half_eth) w
           = sltp_legs ex ''ETHUSDT'' True (Fin 2000) m (Some (Fin 1940)) (Some (Fin 2200)) w2"
proof -
  let ?sp = "buy_sltpParams buy_half_eth"
  have s: "tp_symbol ?sp = ''ETH/USDT''"
    by (simp add: buy_sltpParams_def buy_half_eth_def)
  have pos: "sltp_position ex ?sp w = (Inr (Inr eth_long), emit FetchPositions (emit GetBinanceInstance w))"
    using assms
    by (simp add: sltp_position_def getBinanceInstance_def s protect_symbols eth_long_def nseq_def)
  have "\<exists>m w2. sltp_prepare ex ?sp eth_long (emit FetchPositions (emit GetBinanceInstance w))
      = ((m, Some (Fin 1940), Some (Fin 2200)), w2)"
    by (simp add: sltp_prepare_def eth_position_fields half_eth_derivePrices split: prod.splits)
  then obtain m w2 where prep: "sltp_prepare ex ?sp eth_long (emit FetchPositions (emit GetBinanceInstance w))
      = ((m, Some (Fin 1940), Some (Fin 2200)), w2)"
    by blast
  show ?thesis
    using sltp_unfold(1) [OF _ _ pos prep]
    by (simp add: s protect_symbols eth_position_fields) blast
qed

lemma price_checks:
  "opt_truthy (Some (Fin 1940))" "opt_truthy (Some (Fin 2200))"
  "\<not> nge (Fin 1940) (Fin 2000)" "\<not> nle (Fin 2200) (Fin 2000)"
  by (simp_all add: opt_truthy_def truthy_def nge_def nle_def nseq_def)

lemma ex_fields:
  "x_instance ex_accepting = (\<lambda>t. None)" "x_fetchPositions ex_accepting = (\<lambda>t. Inr [eth_long])"
  "x_newOrder ex_accepting = (\<lambda>t s sd ty ps. Inr (Some eth_filled))"
  "x_markPrice ex_accepting = (\<lambda>t s. Inr (Fin 2000))"
  "x_positionMode ex_accepting = (\<lambda>t. Some False)"
  "x_instance ex_stop_rejected = (\<lambda>t. None)" "x_fetchPositions ex_stop_rejected = (\<lambda>t. Inr [eth_long])"
  "x_newOrder ex_stop_rejected = (\<lambda>t s sd ty ps.
        if ty = ''STOP_MARKET'' then Inl margin_error else Inr (Some eth_filled))"
  "x_markPrice ex_stop_rejected = (\<lambda>t s. Inr (Fin 2000))"
  "x_positionMode ex_stop_rejected = (\<lambda>t. Some False)"
  by (simp_all add: ex_accepting_def ex_stop_rejected_def)

lemma half_eth_attempt_rejected:
  "\<not> st_success (fst (setStopLossTakeProfit ex_stop_rejected (buy_sltpParams buy_half_eth) w))"
proof -
  obtain m w2 where a: "setStopLossTakeProfit ex_stop_rejected (buy_sltpParams buy_half_eth) w
      = sltp_legs ex_stop_rejected ''ETHUSDT'' True (Fin 2000) m (Some (Fin 1940)) (Some (Fin 2200)) w2"
    using half_eth_attempt [OF ex_fields(6,7)] by blast
  have "createStopLoss ex_stop_rejected ''ETHUSDT'' True (Fin 2000) m (Some (Fin 1940)) w2
          = (Inl (sltp_fail (FailedToCreateStopLoss (creationMessage margin_error))),
             emit (NewOrder ''ETHUSDT'' ''SELL'' ''STOP_MARKET'' (protectiveParams m True (Fin 1940))) w2)"
    using createStopLoss_creation_fails [of "Some (Fin 1940)" True "Fin 2000" ex_stop_rejected w2
        "''ETHUSDT''" m margin_error]
    by (simp add: price_checks ex_fields)
  then show ?thesis
    unfolding a by (simp add: sltp_legs_def sltp_fail_def)
qed

lemma half_eth_attempt_accepted:
  "st_success (fst (setStopLossTakeProfit ex_accepting (buy_sltpParams buy_half_eth) w))"
proof -
  obtain m w2 where a: "setStopLossTakeProfit ex_accepting (buy_sltpParams buy_half_eth) w
      = sltp_legs ex_accepting ''ETHUSDT'' True (Fin 2000) m (Some (Fin 1940)) (Some (Fin 2200)) w2"
    using half_eth_attempt [OF ex_fields(1,2)] by blast
  let ?w3 = "emit (NewOrder ''ETHUSDT'' ''SELL'' ''STOP_MARKET'' (protectiveParams m True (Fin 1940))) w2"
  have s: "createStopLoss ex_accepting ''ETHUSDT'' True (Fin 2000) m (Some (Fin 1940)) w2
          = (Inr (od_orderId eth_filled), ?w3)"
    using createStopLoss_created [of "Some (Fin 1940)" True "Fin 2000" ex_accepting w2
        "''ETHUSDT''" m eth_filled]
    by (simp add: price_checks ex_fields)
  have t: "createTakeProfit ex_accepting ''ETHUSDT'' True (Fin 2000) m (Some (Fin 2200)) ?w3
          = (Inr (od_orderId eth_filled),
             emit (NewOrder ''ETHUSDT'' ''SELL'' ''TAKE_PROFIT_MARKET''
                     (protectiveParams m True (Fin 2200))) ?w3)"
    using createTakeProfit_created [of "Some (Fin 2200)" True "Fin 2000" ex_accepting ?w3
        "''ETHUSDT''" m eth_filled]
    by (simp add: price_checks ex_fields)
  show ?thesis
    unfolding a by (simp add: sltp_legs_def s t)
qed

lemma half_eth_protect:
  "fst (buy_protect ex_stop_rejected buy_half_eth w) = False"
  "fst (buy_protect ex_accepting buy_half_eth w) = True"
proof -
  have a: "(case bp_autoSetStopLoss buy_half_eth of Some b \<Rightarrow> b | None \<Rightarrow> True)"
    by (simp add: buy_half_eth_def)
  show "fst (buy_protect ex_stop_rejected buy_half_eth w) = False"
    unfolding buy_protect_def if_P [OF a]
    by (rule buy_sltpLoop_all_fail) (rule half_eth_attempt_rejected)
  show "fst (buy_protect ex_accepting buy_half_eth w) = True"
    unfolding buy_protect_def if_P [OF a]
    by (rule buy_sltpLoop_first_success) (rule half_eth_attempt_accepted)
qed

lemma half_eth_entry_facts:
  assumes "x_instance ex = (\<lambda>t. None)" "x_markPrice ex = (\<lambda>t s. Inr (Fin 2000))"
    "x_positionMode ex = (\<lambda>t. Some False)"
    "\<And>t ps. x_newOrder ex t ''ETHUSDT'' ''BUY'' ''MARKET'' ps = Inr (Some eth_filled)"
  shows "buy_validate buy_half_eth = None"
    and "buy_connect ex world0 = (None, world_connected)"
    and "buy_currentPrice ex buy_half_eth (toBinanceSymbol (bp_symbol buy_half_eth)) world_connected
           = (Fin 2000, emit (MarkPrice ''ETHUSDT'') world_connected)"
    and "buy_sizing (bp_amount buy_half_eth) (buy_leverage buy_half_eth) (bp_symbol buy_half_eth)
           (toBinanceSymbol (bp_symbol buy_half_eth)) (Fin 2000) = Inr (Fin (1/2), Fin 10)"
    and "(if opt_truthy (bp_price buy_half_eth)
          then checkMinNotional (Fin (1/2)) (toBinanceSymbol (bp_symbol buy_half_eth)) (bp_price buy_half_eth)
          else None) = None"
    and "buy_submit ex buy_half_eth (toBinanceSymbol (bp_symbol buy_half_eth)) (Fin (1/2)) (Fin 10)
           (emit (MarkPrice ''ETHUSDT'') world_connected) = (Inr eth_filled, world_entered)"
proof -
  have smb: "toBinanceSymbol (bp_symbol buy_half_eth) = ''ETHUSDT''"
    by (simp add: buy_half_eth_def toBinanceSymbol_def)
  show "buy_validate buy_half_eth = None"
    by (simp add: buy_validate_def buy_half_eth_def includesSlash_def buy_leverage_def
          nle_def nseq_def ngt_def)
  show "buy_connect ex world0 = (None, world_connected)"
    using assms(1) by (rule connect_world0)
  show "buy_currentPrice ex buy_half_eth (toBinanceSymbol (bp_symbol buy_half_eth)) world_connected
           = (Fin 2000, emit (MarkPrice ''ETHUSDT'') world_connected)"
    using assms(2) by (simp add: buy_currentPrice_def smb opt_truthy_def)
      (simp add: buy_half_eth_def)
  have "buy_sizing (Fin (1/2)) (Fin 10) ''ETH/USDT'' ''ETHUSDT'' (Fin 2000) = Inr (Fin (1/2), Fin 10)"
    by code_simp
  then show "buy_sizing (bp_amount buy_half_eth) (buy_leverage buy_half_eth) (bp_symbol buy_half_eth)
           (toBinanceSymbol (bp_symbol buy_half_eth)) (Fin 2000) = Inr (Fin (1/2), Fin 10)"
    by (simp add: buy_half_eth_def buy_leverage_def protect_symbols)
  show "(if opt_truthy (bp_price buy_half_eth)
          then checkMinNotional (Fin (1/2)) (toBinanceSymbol (bp_symbol buy_half_eth)) (bp_price buy_half_eth)
          else None) = None"
    by (simp add: buy_half_eth_def opt_truthy_def)
  show "buy_submit ex buy_half_eth (toBinanceSymbol (bp_symbol buy_half_eth)) (Fin (1/2)) (Fin 10)
           (emit (MarkPrice ''ETHUSDT'') world_connected) = (Inr eth_filled, world_entered)"
    using assms
    by (simp add: protect_symbols buy_submit_def getPositionMode_buy_def getBinanceInstance_def ensureTimeSync_def
          emit_def world_connected_def world0_def world_entered_def buy_orderParams_def
          half_eth_entry_def buy_half_eth_def opt_truthy_def Let_def)
qed


section \<open>Precision rounding\<close>

text \<open>
  C6 (the precision rounding is idempotent and never rounds up, truncating at the
  symbol's decimal count). In binary64 arithmetic \<^verbatim>\<open>Math.floor(amount * factor) / factor\<close>
  does not truncate at the decimal count: for the quantity \<^verbatim>\<open>0.29\<close> of
  \<^verbatim>\<open>ETHUSDT\<close> (two decimals) the product \<^verbatim>\<open>0.29 * 100\<close> is
  \<^verbatim>\<open>28.999999999999996\<close>, so the function returns \<^verbatim>\<open>0.28\<close>. The quantity
  \<^verbatim>\<open>0.295\<close> is rounded to \<^verbatim>\<open>0.29\<close> and a second rounding gives \<^verbatim>\<open>0.28\<close>:
  the function is not idempotent.
\<close>

theorem adjustPrecision_binary64_defect:
  "is_double (lit (29/100))
   \<and> adjustPrecision SYMBOL_PRECISION_sell (lit (29/100)) ''ETHUSDT'' = lit (28/100)
   \<and> adjustPrecision SYMBOL_PRECISION_buy (lit (29/100)) ''ETHUSDT'' = lit (28/100)
   \<and> lit (28/100) \<noteq> lit (29/100)
   \<and> adjustPrecision SYMBOL_PRECISION_sell (lit (295/1000)) ''ETHUSDT'' = lit (29/100)
   \<and> adjustPrecision SYMBOL_PRECISION_sell
         (adjustPrecision SYMBOL_PRECISION_sell (lit (295/1000)) ''ETHUSDT'') ''ETHUSDT''
       \<noteq> adjustPrecision SYMBOL_PRECISION_sell (lit (295/1000)) ''ETHUSDT''"
  by code_simp


section \<open>Daily loss limit\<close>

text \<open>
  C5 (\<^verbatim>\<open>checkDailyLossLimit\<close> refuses exactly when today's PnL is negative and
  \<open>|todayPnL| / initialCapital * 100\<close> is at least the limit, the boundary included). In
  binary64 arithmetic the function misses the boundary: with a loss of 29 on a capital
  of 100 and a limit of 29 percent the ratio is exactly the limit, but
  \<^verbatim>\<open>(29 / 100) * 100\<close> is \<^verbatim>\<open>28.999999999999996\<close>, below the limit, and the function
  allows trading.
\<close>

theorem checkDailyLossLimit_boundary_defect:
  "is_double (Fin (- 29)) \<and> is_double (Fin 100) \<and> is_double (dailyLossLimitPercent cfg29)
   \<and> nlt (Fin (- 29)) (Fin 0)
   \<and> \<bar>- 29\<bar> / 100 * 100 \<ge> (29 :: rat)
   \<and> lossPercent (Fin (- 29)) (Fin 100) = nmul (lit (29/100)) (Fin 100)
   \<and> nlt (lossPercent (Fin (- 29)) (Fin 100)) (dailyLossLimitPercent cfg29)
   \<and> checkDailyLossLimit (Fin (- 29)) (Fin 100) cfg29 = \<lparr>allowed = True, reason = None\<rparr>"
  by code_simp


section \<open>Risk multipliers\<close>

lemma win_band: "nlt w (Fin 50) \<Longrightarrow> \<not> nlt w (Fin 40) \<longleftrightarrow> nle (Fin 40) w"
  using nlt_not_NaN [of w "Fin 50"] nle_iff_not_nlt [of w "Fin 40"] by simp

lemma band_excl: "nlt w (Fin 40) \<Longrightarrow> \<not> ngt w (Fin 65)" "nlt w (Fin 50) \<Longrightarrow> \<not> ngt w (Fin 65)"
  by (cases w; simp add: ngt_def)+

text \<open>
  C8 (the table of \<^verbatim>\<open>getDynamicRiskAdjustment\<close>). Writing \<open>r0\<close> for the result on the
  same statistics without a PnL penalty: a win rate below 40 gives 0.5 / 0.5 / 0.75, a
  win rate in [40, 50) gives 0.7 / 0.7 / 0.70, a win rate above 65 gives
  1.2 / 1.1 / 0.55, anything else 1.0 / 1.0 / 0.60; with a total PnL below \<open>-10\<close> both
  multipliers are those of \<open>r0\<close> multiplied by 0.6 and the confidence threshold is the
  maximum of that of \<open>r0\<close> and 0.75, hence at least 0.75; otherwise the result is \<open>r0\<close>.
\<close>

theorem getDynamicRiskAdjustment_table:
  "let w = win_rate stats;
       r = getDynamicRiskAdjustment stats;
       r0 = getDynamicRiskAdjustment (stats\<lparr>total_pnl := Fin 0\<rparr>)
   in (nlt w (Fin 40) \<longrightarrow> triple r0 = (lit (5/10), lit (5/10), lit (75/100)))
    \<and> (nle (Fin 40) w \<and> nlt w (Fin 50) \<longrightarrow> triple r0 = (lit (7/10), lit (7/10), lit (70/100)))
    \<and> (ngt w (Fin 65) \<longrightarrow> triple r0 = (lit (12/10), lit (11/10), lit (55/100)))
    \<and> (\<not> nlt w (Fin 40) \<and> \<not> (nle (Fin 40) w \<and> nlt w (Fin 50)) \<and> \<not> ngt w (Fin 65)
         \<longrightarrow> triple r0 = (lit 1, lit 1, lit (60/100)))
    \<and> (\<not> nlt (total_pnl stats) (Fin (- 10)) \<longrightarrow> triple r = triple r0)
    \<and> (nlt (total_pnl stats) (Fin (- 10)) \<longrightarrow>
          leverage_multiplier r = nmul (leverage_multiplier r0) (lit (6/10))
        \<and> position_size_multiplier r = nmul (position_size_multiplier r0) (lit (6/10))
        \<and> confidence_threshold r = nmax (confidence_threshold r0) (lit (75/100))
        \<and> nge (confidence_threshold r) (lit (75/100)))"
  unfolding Let_def
  apply (intro conjI impI)
  subgoal by (simp add: getDynamicRiskAdjustment_def triple_def)
  subgoal using win_band [of "win_rate stats"] by (simp add: getDynamicRiskAdjustment_def triple_def)
  subgoal using band_excl [of "win_rate stats"] by (auto simp add: getDynamicRiskAdjustment_def triple_def)
  subgoal using win_band [of "win_rate stats"] by (auto simp add: getDynamicRiskAdjustment_def triple_def)
  subgoal by (simp add: getDynamicRiskAdjustment_def triple_def)
  subgoal by (simp add: getDynamicRiskAdjustment_def)
  subgoal by (simp add: getDynamicRiskAdjustment_def)
  subgoal by (simp add: getDynamicRiskAdjustment_def)
  subgoal by (simp add: getDynamicRiskAdjustment_def nge_nmax)
  done

theorem getDynamicRiskAdjustment_table_witness:
  "triple (getDynamicRiskAdjustment stats35) = (lit (5/10), lit (5/10), lit (75/100))
   \<and> leverage_multiplier (getDynamicRiskAdjustment stats35_loss) = nmul (lit (5/10)) (lit (6/10))
   \<and> confidence_threshold (getDynamicRiskAdjustment stats35_loss) = lit (75/100)"
proof -
  have h1: "nlt (win_rate stats35) (Fin 40)" "\<not> nlt (total_pnl stats35) (Fin (- 10))"
    by (simp_all add: stats35_def)
  have h2: "nlt (win_rate stats35_loss) (Fin 40)" "nlt (total_pnl stats35_loss) (Fin (- 10))"
    by (simp_all add: stats35_def stats35_loss_def)
  have mx: "nmax (lit (75/100)) (lit (75/100)) = lit (75/100)"
    by (simp add: nmax_def)
  have same: "stats35_loss\<lparr>total_pnl := Fin 0\<rparr> = stats35\<lparr>total_pnl := Fin 0\<rparr>"
    by (simp add: stats35_loss_def)
  show ?thesis
    using h1 h2 mx getDynamicRiskAdjustment_table [of stats35]
      getDynamicRiskAdjustment_table [of stats35_loss]
    by (simp add: Let_def triple_def same)
qed


section \<open>Exit orders: three failed submissions\<close>




section \<open>Entry orders: local validation\<close>

text \<open>
  C10 (\<^verbatim>\<open>buy\<close> rejects invalid arguments locally). A symbol without a slash, an
  amount not above zero or a leverage outside [1, 30] makes \<^verbatim>\<open>buy\<close> return a failure
  with one of its three validation errors, and the process state is unchanged: nothing
  is added to the trace, so no time sync, no session acquisition and no order.
\<close>

theorem buy_rejects_invalid_locally:
  assumes "bp_symbol p = [] \<or> \<not> includesSlash (bp_symbol p) \<or> nle (bp_amount p) (Fin 0)
           \<or> nlt (buy_leverage p) (Fin 1) \<or> ngt (buy_leverage p) (Fin 30)"
  shows "\<not> br_success (fst (buy ex p w))
         \<and> br_error (fst (buy ex p w)) \<in> {Some InvalidSymbolFormat, Some AmountNotPositive, Some LeverageOutOfRange}
         \<and> snd (buy ex p w) = w"
  using assms by (auto simp: buy_def buy_validate_def buy_fail_def)

theorem buy_rejects_invalid_locally_witness:
  "\<not> br_success (fst (buy ex_btc zero_btc world0)) \<and> snd (buy ex_btc zero_btc world0) = world0"
proof -
  have "nle (bp_amount zero_btc) (Fin 0)"
    by (simp add: zero_btc_def nle_def nseq_def)
  then show ?thesis
    using buy_rejects_invalid_locally [of zero_btc ex_btc world0] by blast
qed


section \<open>Entry orders: automatic scaling\<close>




section \<open>Entry orders: the result after a failed protection\<close>

text \<open>
  C1, as amended. When the entry order is filled, \<^verbatim>\<open>buy\<close> returns \<^verbatim>\<open>success: true\<close>
  with the id, price and amount of that order, and nothing else: the outcome of the
  protection attempts (\<^verbatim>\<open>slTpSuccess\<close>) is not part of the returned value. The
  protection is attempted at most three times: after a wait of 8 s, then after waits
  of 3 s and of 5 s, each attempt made only when the ones before it have failed, and
  the state after the last attempt made is the final state of \<^verbatim>\<open>buy\<close>.
\<close>

theorem buy_result_ignores_protection:
  assumes valid: "buy_validate p = None"
    and conn: "buy_connect ex w = (None, w1)"
    and price: "buy_currentPrice ex p (toBinanceSymbol (bp_symbol p)) w1 = (currentPrice, w2)"
    and sz: "buy_sizing (bp_amount p) (buy_leverage p) (bp_symbol p) (toBinanceSymbol (bp_symbol p))
               currentPrice = Inr (q, lev)"
    and notional: "(if opt_truthy (bp_price p)
                    then checkMinNotional q (toBinanceSymbol (bp_symbol p)) (bp_price p) else None) = None"
    and sub: "buy_submit ex p (toBinanceSymbol (bp_symbol p)) q lev w2 = (Inr orderResult, w3)"
  shows "fst (buy ex p w) =
           \<lparr>br_success = True, br_orderId = od_orderId orderResult,
            br_executedPrice = Some (executedPrice_of orderResult),
            br_executedAmount = Some (executedAmount_of orderResult), br_error = None\<rparr>
         \<and> snd (buy ex p w) = snd (buy_protect ex p w3)
         \<and> (let sp = buy_sltpParams p;
                 a1 = setStopLossTakeProfit ex sp (emit (Sleep 8000) w3);
                 a2 = setStopLossTakeProfit ex sp (emit (Sleep 3000) (snd a1));
                 a3 = setStopLossTakeProfit ex sp (emit (Sleep 5000) (snd a2))
             in buy_protect ex p w3 =
                  (if \<not> (case bp_autoSetStopLoss p of Some b \<Rightarrow> b | None \<Rightarrow> True) then (False, w3)
                   else if st_success (fst a1) then (True, snd a1)
                   else if st_success (fst a2) then (True, snd a2)
                   else (st_success (fst a3), snd a3)))"
proof -
  have "fst (buy ex p w) =
           \<lparr>br_success = True, br_orderId = od_orderId orderResult,
            br_executedPrice = Some (executedPrice_of orderResult),
            br_executedAmount = Some (executedAmount_of orderResult), br_error = None\<rparr>
         \<and> snd (buy ex p w) = snd (buy_protect ex p w3)"
    using buy_entry_result [OF assms] by (simp add: buy_result_def)
  moreover note buy_protect_attempts [of ex p w3]
  ultimately show ?thesis by (simp only: Let_def simp_thms)
qed

theorem buy_result_ignores_protection_witness:
  "fst (buy ex_stop_rejected buy_half_eth world0) =
       \<lparr>br_success = True, br_orderId = Some ''8389765'',
        br_executedPrice = Some (Fin 2000), br_executedAmount = Some (Fin (1/2)),
        br_error = None\<rparr>
   \<and> snd (buy ex_stop_rejected buy_half_eth world0)
       = snd (buy_protect ex_stop_rejected buy_half_eth world_entered)
   \<and> buy_protect ex_stop_rejected buy_half_eth world_entered
       = (False,
          snd (setStopLossTakeProfit ex_stop_rejected (buy_sltpParams buy_half_eth)
            (emit (Sleep 5000)
              (snd (setStopLossTakeProfit ex_stop_rejected (buy_sltpParams buy_half_eth)
                (emit (Sleep 3000)
                  (snd (setStopLossTakeProfit ex_stop_rejected (buy_sltpParams buy_half_eth)
                    (emit (Sleep 8000) world_entered)))))))))"
proof -
  have n: "\<And>t ps. x_newOrder ex_stop_rejected t ''ETHUSDT'' ''BUY'' ''MARKET'' ps = Inr (Some eth_filled)"
    by (simp add: ex_fields)
  note h = half_eth_entry_facts [OF ex_fields(6) ex_fields(9) ex_fields(10) n]
  have e: "executedPrice_of eth_filled = Fin 2000" "executedAmount_of eth_filled = Fin (1/2)"
    "od_orderId eth_filled = Some ''8389765''"
    by (simp_all add: executedPrice_of_def executedAmount_of_def eth_filled_def opt_truthy_def
          truthy_def)
  have a: "(case bp_autoSetStopLoss buy_half_eth of Some b \<Rightarrow> b | None \<Rightarrow> True)"
    by (simp add: buy_half_eth_def)
  show ?thesis
    using buy_result_ignores_protection [OF h]
    by (simp add: e a Let_def half_eth_attempt_rejected)
qed

text \<open>
  C1 as stated (the returned value distinguishes an entry whose protection failed from
  a full success) fails. The same entry of 0.5 ETH is sent to an exchange that rejects
  every stop-market order, where all three protection attempts fail, and to one that
  accepts every order, where the first attempt succeeds: \<^verbatim>\<open>buy\<close> returns the same
  value in both runs, \<^verbatim>\<open>success: true\<close> with the data of the entry order.
\<close>

theorem failed_protection_not_reported:
  "fst (buy_protect ex_stop_rejected buy_half_eth world_entered) = False
   \<and> fst (buy_protect ex_accepting buy_half_eth world_entered) = True
   \<and> buy ex_stop_rejected buy_half_eth world0
       = (buy_result eth_filled, snd (buy_protect ex_stop_rejected buy_half_eth world_entered))
   \<and> buy ex_accepting buy_half_eth world0
       = (buy_result eth_filled, snd (buy_protect ex_accepting buy_half_eth world_entered))
   \<and> buy_result eth_filled =
       \<lparr>br_success = True, br_orderId = Some ''8389765'',
        br_executedPrice = Some (Fin 2000), br_executedAmount = Some (Fin (1/2)),
        br_error = None\<rparr>"
proof -
  have n: "\<And>t ps. x_newOrder ex_stop_rejected t ''ETHUSDT'' ''BUY'' ''MARKET'' ps = Inr (Some eth_filled)"
    "\<And>t ps. x_newOrder ex_accepting t ''ETHUSDT'' ''BUY'' ''MARKET'' ps = Inr (Some eth_filled)"
    by (simp_all add: ex_fields)
  have r: "buy ex_stop_rejected buy_half_eth world0
       = (buy_result eth_filled, snd (buy_protect ex_stop_rejected buy_half_eth world_entered))"
    by (rule buy_entry_result [OF half_eth_entry_facts [OF ex_fields(6) ex_fields(9) ex_fields(10) n(1)]])
  have a: "buy ex_accepting buy_half_eth world0
       = (buy_result eth_filled, snd (buy_protect ex_accepting buy_half_eth world_entered))"
    by (rule buy_entry_result [OF half_eth_entry_facts [OF ex_fields(1) ex_fields(4) ex_fields(5) n(2)]])
  have e: "buy_result eth_filled =
       \<lparr>br_success = True, br_orderId = Some ''8389765'',
        br_executedPrice = Some (Fin 2000), br_executedAmount = Some (Fin (1/2)),
        br_error = None\<rparr>"
    by (simp add: buy_result_def executedPrice_of_def executedAmount_of_def eth_filled_def
          opt_truthy_def truthy_def)
  show ?thesis
    using r a e half_eth_protect [of world_entered] by simp
qed


section \<open>Protective orders: the direction of the prices\<close>





section \<open>Protective orders: the two legs\<close>





section \<open>Session acquisition: one initialization\<close>

lemma single_flight_session0: "single_flight session0"
  by (simp add: single_flight_def session0_def)

lemma single_flight_length: "single_flight s \<Longrightarrow> length (promises s) \<le> 1"
  by (auto simp: single_flight_def split: option.splits)

lemma attemptFailed_client:
  "attemptFailed c attempt = (q, hs) \<Longrightarrow>
     list_all (\<lambda>h. client_of h = c) hs
     \<and> (case q of Suspended c' point \<Rightarrow> c' = c | Fulfilled c' \<Rightarrow> c' = c | Rejected e \<Rightarrow> True)"
  by (auto simp: attemptFailed_def split: if_splits)

lemma resume_client:
  "resume c point ok = (q, hs) \<Longrightarrow>
     list_all (\<lambda>h. client_of h = c) hs
     \<and> (case q of Suspended c' point \<Rightarrow> c' = c | Fulfilled c' \<Rightarrow> c' = c | Rejected e \<Rightarrow> True)"
  by (cases point) (auto split: if_splits dest: attemptFailed_client)

lemma getBinanceInstance_session_single_flight:
  assumes "single_flight s" "getBinanceInstance_session env s = (p, s1)"
  shows "p = 0 \<and> single_flight s1 \<and> length (promises s1) = 1
         \<and> (settled (promise_of s 0) \<longrightarrow> promise_of s1 0 = promise_of s 0)"
  using assms
  by (auto simp: single_flight_def getBinanceInstance_session_def initialization_def Let_def
        promise_of_def split: option.splits if_splits)

lemma settle_single_flight:
  assumes "single_flight s"
  shows "single_flight (settle p ok s)
         \<and> length (promises (settle p ok s)) = length (promises s)
         \<and> (settled (promise_of s 0) \<longrightarrow> promise_of (settle p ok s) 0 = promise_of s 0)"
proof (cases "p < length (promises s)")
  case False
  with assms show ?thesis by (simp add: settle_def)
next
  case True
  with assms have p: "p = 0" and l: "length (promises s) = 1"
    by (auto simp: single_flight_def split: option.splits)
  then obtain q where q: "promises s = [q]"
    by (cases "promises s") auto
  show ?thesis
  proof (cases q)
    case (Suspended c point)
    have c: "c = 0" using assms q Suspended by (simp add: single_flight_def)
    obtain q' hs where r: "resume 0 point ok = (q', hs)" by force
    from resume_client [OF r] assms show ?thesis
      by (auto simp: settle_def p q Suspended r c single_flight_def promise_of_def
            split: option.splits)
  next
    case (Fulfilled c)
    with assms show ?thesis by (simp add: settle_def p q)
  next
    case (Rejected e)
    with assms show ?thesis by (simp add: settle_def p q)
  qed
qed

lemma run_single_flight:
  "single_flight s \<Longrightarrow> run env js s = (ps, s') \<Longrightarrow>
     list_all (\<lambda>p. p = 0) ps \<and> single_flight s'
     \<and> (ps \<noteq> [] \<longrightarrow> length (promises s') = 1)
     \<and> length (promises s) \<le> length (promises s')
     \<and> (settled (promise_of s 0) \<longrightarrow> promise_of s' 0 = promise_of s 0)"
proof (induction env js s arbitrary: ps s' rule: run.induct)
  case (1 env s)
  then show ?case by simp
next
  case (2 env js s)
  obtain p s1 where g: "getBinanceInstance_session env s = (p, s1)" by force
  obtain qs s2 where r: "run env js s1 = (qs, s2)" by force
  note a = getBinanceInstance_session_single_flight [OF "2.prems"(1) g]
  from a have sf1: "single_flight s1" by simp
  note ih = "2.IH" [OF g [symmetric] sf1 r]
  have ps: "ps = p # qs" "s' = s2" using "2.prems"(2) g r by simp_all
  have "length (promises s) \<le> 1" using "2.prems"(1) by (rule single_flight_length)
  moreover have "length (promises s2) \<le> 1" using ih single_flight_length [of s2] by simp
  moreover have "settled (promise_of s1 0)" if "settled (promise_of s 0)"
    using that a by simp
  ultimately show ?case using a ih by (auto simp: ps)
next
  case (3 env p ok js s)
  note a = settle_single_flight [OF "3.prems"(1), of p ok]
  from a have sf1: "single_flight (settle p ok s)" by simp
  have r: "run env js (settle p ok s) = (ps, s')" using "3.prems"(2) by simp
  note ih = "3.IH" [OF sf1 r]
  have "settled (promise_of (settle p ok s) 0)" if "settled (promise_of s 0)"
    using that a by simp
  then show ?case using a ih by auto
qed

text \<open>
  C9 (session acquisition is single-flight). From the freshly loaded module, whatever
  the configuration, and however calls of \<^verbatim>\<open>getBinanceInstance\<close> are interleaved with
  the steps of the initialization (answers of the ping and of the time sync, timers):
  every call returns the same promise, the first one made; a call has started the
  initialization; there is never a second promise nor a second client, and every
  request of the handshake belongs to that one client; and once the promise is settled,
  fulfilled with the client or rejected, later jobs leave it as it is, so every later
  call returns the same session (or the same failure: the promise is not reset).
\<close>

theorem getBinanceInstance_single_flight:
  assumes first: "run env jobs session0 = (ps, s)"
    and later: "run env jobs' s = (ps', s')"
  shows "list_all (\<lambda>p. p = 0) (ps @ ps')
         \<and> (ps \<noteq> [] \<longrightarrow> length (promises s) = 1)
         \<and> length (promises s') \<le> 1
         \<and> clients s' \<le> 1
         \<and> list_all (\<lambda>h. client_of h = 0) (handshakes s')
         \<and> (settled (promise_of s 0) \<longrightarrow> promise_of s' 0 = promise_of s 0)"
proof -
  note a = run_single_flight [OF single_flight_session0 first]
  from a have sf: "single_flight s" by simp
  note b = run_single_flight [OF sf later]
  from b have "single_flight s'" by simp
  then have "length (promises s') \<le> 1 \<and> clients s' \<le> 1
      \<and> list_all (\<lambda>h. client_of h = 0) (handshakes s')"
    by (auto simp: single_flight_def split: option.splits)
  with a b show ?thesis by simp
qed

theorem getBinanceInstance_single_flight_witness:
  "fst (run env_ok first_callers session0) = [0, 0, 0]
   \<and> promise_of (snd (run env_ok first_callers session0)) 0 = Some (Suspended 0 (AwaitSyncServerTime 1))
   \<and> fst (run env_ok (first_callers @ later_callers) session0) = [0, 0, 0, 0, 0]
   \<and> promise_of (snd (run env_ok (first_callers @ later_callers) session0)) 0 = Some (Fulfilled 0)
   \<and> handshakes (snd (run env_ok (first_callers @ later_callers) session0))
       = [NewUMFutures 0, Ping 0 1, SyncTime 0]"
proof -
  have e: "run env_ok first_callers session0
       = ([0, 0, 0], \<lparr>initializationPromise = Some 0, promises = [Suspended 0 (AwaitSyncServerTime 1)],
            clients = 1, handshakes = [NewUMFutures 0, Ping 0 1, SyncTime 0]\<rparr>)"
    by (simp add: first_callers_def env_ok_def session0_def getBinanceInstance_session_def
          initialization_def settle_def Let_def)
  have l: "run env_ok later_callers \<lparr>initializationPromise = Some 0,
            promises = [Suspended 0 (AwaitSyncServerTime 1)],
            clients = 1, handshakes = [NewUMFutures 0, Ping 0 1, SyncTime 0]\<rparr>
       = ([0, 0], \<lparr>initializationPromise = Some 0, promises = [Fulfilled 0],
            clients = 1, handshakes = [NewUMFutures 0, Ping 0 1, SyncTime 0]\<rparr>)"
    by (simp add: later_callers_def env_ok_def getBinanceInstance_session_def settle_def)
  have app: "run env_ok (first_callers @ later_callers) session0
       = ([0, 0, 0, 0, 0], \<lparr>initializationPromise = Some 0, promises = [Fulfilled 0],
            clients = 1, handshakes = [NewUMFutures 0, Ping 0 1, SyncTime 0]\<rparr>)"
    by (simp add: first_callers_def later_callers_def env_ok_def session0_def
          getBinanceInstance_session_def initialization_def settle_def Let_def)
  show ?thesis
    using getBinanceInstance_single_flight [OF e l]
    by (simp add: e app promise_of_def)
qed

end
